theory Spec2Isabelle
  imports Main
begin

section \<open>JavaScript strings\<close>

text \<open>
  A \<^typ>\<open>char\<close> stands for one code unit in the Latin-1 range. \<open>trim\<close> removes the
  white space and line terminators of that range at both ends, \<open>toLowerCase\<close> maps
  \<open>A-Z\<close> and the accented capitals \<open>U+00C0-U+00DE\<close> (without the multiplication
  sign \<open>U+00D7\<close>) to their lower-case forms, \<open>includes_str s t\<close> is \<open>s.includes(t)\<close>, substring containment.
\<close>

definition is_ws :: "char \<Rightarrow> bool" where
  "is_ws c = (of_char c \<in> {9, 10, 11, 12, 13, 32, 160 :: nat})"

definition trim :: "string \<Rightarrow> string" where
  "trim s = rev (dropWhile is_ws (rev (dropWhile is_ws s)))"

definition lower_char :: "char \<Rightarrow> char" where
  "lower_char c =
     (let n = of_char c :: nat
      in if (65 \<le> n \<and> n \<le> 90) \<or> (192 \<le> n \<and> n \<le> 222 \<and> n \<noteq> 215)
         then char_of (n + 32) else c)"

definition toLowerCase :: "string \<Rightarrow> string" where
  "toLowerCase s = map lower_char s"

fun starts_with :: "string \<Rightarrow> string \<Rightarrow> bool" where
  "starts_with s [] = True"
| "starts_with [] (c # t) = False"
| "starts_with (a # s) (c # t) = (a = c \<and> starts_with s t)"

fun includes_str :: "string \<Rightarrow> string \<Rightarrow> bool" where
  "includes_str [] t = (t = [])"
| "includes_str (c # s) t = (starts_with (c # s) t \<or> includes_str s t)"

text \<open>A string is falsy exactly when it is empty; \<open>null\<close> and \<open>undefined\<close> are \<open>None\<close>.\<close>

definition falsy :: "string option \<Rightarrow> bool" where
  "falsy v = (v = None \<or> v = Some [])"

section \<open>Documents, the store and the page\<close>

text \<open>
  Firestore documents are schemaless, and the readers of \<open>archived_dreams\<close> and
  \<open>daily_events\<close> guard every field (\<open>dreamData.dreamText ? ... : ''\<close>), so their fields
  are optional. A timestamp is the value of \<open>timestamp.toDate().getTime()\<close>:
  milliseconds since the epoch.
\<close>

record draft_dream =
  draftText :: string
  draftTitle :: string
  draftTimestamp :: int
  isPreAnalyzed :: bool

record archived_dream =
  dreamText :: "string option"
  analysisText :: "string option"
  dreamTitle :: "string option"
  timestamp :: "int option"
  matchedRealityEvent :: "string option"

record daily_event =
  eventText :: "string option"
  eventTimestamp :: "int option"

text \<open>\<open>x.timestamp ? x.timestamp.toDate().getTime() : 0\<close>.\<close>

definition ts_or_zero :: "int option \<Rightarrow> int" where
  "ts_or_zero t = (case t of None \<Rightarrow> 0 | Some n \<Rightarrow> n)"

text \<open>
  What a function does to the outside is appended to a trace: the calls of
  \<open>showMessage(type, message)\<close>, the calls into Firestore with the user segment of the
  path \<open>artifacts/${appId}/users/${userId}/<collection>\<close>, and the calls of \<open>fetch\<close>.
\<close>

datatype effect =
    ShowMessage string string
  | AddDoc string string
  | UpdateDoc string string string
  | DeleteDoc string string string
  | GetDocs string string
  | OnSnapshot string string
  | Fetch string
  | Uncaught string

text \<open>An awaited promise either resolves to a value or rejects with \<open>error.message\<close>.\<close>

datatype 'a promise = Resolved 'a | Rejected string

text \<open>
  The world: the exports of \<open>firebase-init.js\<close>, the collections of the store keyed by
  the user segment of their path, the module variables of \<open>dreams-module.js\<close>, and the
  input fields the handlers read and clear. Every element a function looks up is taken
  to be on the page; the loading overlay and the rendering of lists are left out.
\<close>

record world =
  userId :: "string option"
  isAuthReady :: bool
  draft_dreams :: "string \<Rightarrow> (string \<times> draft_dream) list"
  archived_dreams :: "string \<Rightarrow> (string \<times> archived_dream) list"
  daily_events :: "string \<Rightarrow> (string \<times> daily_event) list"
  currentDraftId :: "string option"
  currentDreamIdForMatch :: "string option"
  matchedEventInput :: string
  dreamInputDraft :: string
  dreamTitleDraft :: string
  addMatchModalHidden :: bool
  trace :: "effect list"

text \<open>The template \<open>${userId}\<close> prints \<open>null\<close> as the four letters.\<close>

definition user_seg :: "string option \<Rightarrow> string" where
  "user_seg u = (case u of None \<Rightarrow> ''null'' | Some s \<Rightarrow> s)"

definition emit :: "effect \<Rightarrow> world \<Rightarrow> world" where
  "emit e w = w\<lparr>trace := trace w @ [e]\<rparr>"

definition showMessage :: "string \<Rightarrow> string \<Rightarrow> world \<Rightarrow> world" where
  "showMessage ty m w = emit (ShowMessage ty m) w"

text \<open>The guard \<open>!userId || !isAuthReady\<close>.\<close>

definition not_signed_in :: "world \<Rightarrow> bool" where
  "not_signed_in w = (falsy (userId w) \<or> \<not> isAuthReady w)"

text \<open>The message the modal shows is the one of the last \<open>showMessage\<close> call.\<close>

fun last_message :: "effect list \<Rightarrow> (string \<times> string) option" where
  "last_message [] = None"
| "last_message (ShowMessage ty m # es) =
     (case last_message es of None \<Rightarrow> Some (ty, m) | Some r \<Rightarrow> Some r)"
| "last_message (e # es) = last_message es"

definition is_store_write :: "effect \<Rightarrow> bool" where
  "is_store_write e =
     (case e of AddDoc u c \<Rightarrow> True | UpdateDoc u c i \<Rightarrow> True | DeleteDoc u c i \<Rightarrow> True
      | _ \<Rightarrow> False)"

section \<open>The Analysis Client (dreams-module.js, performDreamAnalysis)\<close>

text \<open>
  The body of the HTTP response is read by \<open>response.json()\<close>, which throws when the
  body is not JSON. A parsed body is typed by the schema of the endpoint's answer, every
  field optional: \<open>candidates\<close>, a list of candidates; \<open>content\<close> of a candidate;
  \<open>parts\<close> of a content, a list; \<open>text\<close> of a part. For \<open>candidates\<close>, \<open>content\<close> and
  \<open>parts\<close>, \<open>None\<close> is a field that is missing or \<open>null\<close>: the test below takes the same
  branch for both, and an empty list is as falsy as the code's \<open>length > 0\<close> makes it.
  The \<open>text\<close> of a part is returned as it is, so its three cases are kept apart:
  \<open>Part None\<close> is a part without the field (\<open>undefined\<close>), \<open>Part (Some s)\<close> a part whose
  text is the string \<open>s\<close>, \<open>PartNullText\<close> a part whose text is \<open>null\<close>.
  The status code of the response is carried along: the function never reads it.
\<close>

datatype part = Part "string option" | PartNullText
datatype content = Content "part list option"
datatype candidate = Candidate "content option"
datatype gen_response = GenResponse "candidate list option"

datatype fetch_outcome =
    NetworkError string
  | HttpResponse nat "string + gen_response"

text \<open>What the returned promise resolves to: a string, \<open>null\<close> or \<open>undefined\<close>.\<close>

datatype js_ret = RetString string | RetNull | RetUndefined

definition apiUrl :: string where
  "apiUrl = ''https://generativelanguage.googleapis.com/v1beta/models/gemini-2.0-flash:generateContent?key=''"

text \<open>
  The test \<open>result.candidates && result.candidates.length > 0 && result.candidates[0].content
  && result.candidates[0].content.parts && result.candidates[0].content.parts.length > 0\<close>,
  answering \<open>parts[0]\<close> when it holds.
\<close>

definition first_part :: "gen_response \<Rightarrow> part option" where
  "first_part r =
     (case r of GenResponse None \<Rightarrow> None
      | GenResponse (Some []) \<Rightarrow> None
      | GenResponse (Some (Candidate None # cs)) \<Rightarrow> None
      | GenResponse (Some (Candidate (Some (Content None)) # cs)) \<Rightarrow> None
      | GenResponse (Some (Candidate (Some (Content (Some []))) # cs)) \<Rightarrow> None
      | GenResponse (Some (Candidate (Some (Content (Some (p # ps)))) # cs)) \<Rightarrow> Some p)"

text \<open>
  \<open>checkedFormat\<close> is the value of the checked radio button \<open>output-format\<close>, \<open>None\<close> when
  no button is checked: then \<open>document.querySelector(...).value\<close> throws a TypeError inside
  the \<open>try\<close>, which the \<open>catch\<close> turns into the error answer. The display branch only
  writes into the page, inside \<open>try\<close>/\<open>catch\<close> blocks of its own. The prompt is built from
  the dream's text and title and goes into the request only.
\<close>

definition typeErrorMessage :: string where
  "typeErrorMessage = ''Cannot read properties of null (reading value)''"

definition performDreamAnalysis ::
  "world \<Rightarrow> string \<Rightarrow> string \<Rightarrow> bool \<Rightarrow> string option \<Rightarrow> fetch_outcome \<Rightarrow> js_ret \<times> world" where
  "performDreamAnalysis w dreamTxt dreamTtl forArchiving checkedFormat outcome =
     (if not_signed_in w then (RetNull, showMessage ''error'' ''Please sign in to analyze dreams.'' w)
      else
        let w1 = emit (Fetch apiUrl) w in
        (case outcome of
           NetworkError m \<Rightarrow> (RetNull, showMessage ''error'' (''Dream analysis failed: '' @ m) w1)
         | HttpResponse status (Inl m) \<Rightarrow>
             (RetNull, showMessage ''error'' (''Dream analysis failed: '' @ m) w1)
         | HttpResponse status (Inr result) \<Rightarrow>
             (case first_part result of
                None \<Rightarrow> (RetNull, showMessage ''error'' ''Could not analyze dream. Please try again.'' w1)
              | Some p \<Rightarrow>
                  if \<not> forArchiving \<and> checkedFormat = None
                  then (RetNull, showMessage ''error'' (''Dream analysis failed: '' @ typeErrorMessage) w1)
                  else (case p of
                          Part None \<Rightarrow> (RetUndefined, w1)
                        | Part (Some s) \<Rightarrow> (RetString s, w1)
                        | PartNullText \<Rightarrow> (RetNull, w1)))))"

section \<open>The Dream Lifecycle Manager (dreams-module.js)\<close>

text \<open>
  Every function takes the outcome of each call it awaits: for \<open>addDoc\<close> the new
  document's id and the server's timestamp, for \<open>updateDoc\<close> and \<open>deleteDoc\<close> nothing.
\<close>

definition saveDraftDream ::
  "world \<Rightarrow> string \<Rightarrow> string \<Rightarrow> bool \<Rightarrow> (string \<times> int) promise \<Rightarrow> string option \<times> world" where
  "saveDraftDream w dreamTxt dreamTtl preAnalyzed ack =
     (if not_signed_in w then (None, showMessage ''error'' ''Please sign in to save dreams.'' w)
      else
        let u = user_seg (userId w); w1 = emit (AddDoc u ''draft_dreams'') w in
        (case ack of
           Resolved (newId, ts) \<Rightarrow>
             (Some newId,
              showMessage ''success'' ''Dream draft saved!''
                (w1\<lparr>draft_dreams := (draft_dreams w1)
                   (u := draft_dreams w1 u @
                      [(newId, \<lparr>draftText = dreamTxt, draftTitle = dreamTtl,
                                draftTimestamp = ts, isPreAnalyzed = preAnalyzed\<rparr>)])\<rparr>))
         | Rejected m \<Rightarrow>
             (None, showMessage ''error'' (''Failed to save dream draft: '' @ m) w1)))"

definition updateDraftDream ::
  "world \<Rightarrow> string \<Rightarrow> string \<Rightarrow> string \<Rightarrow> bool \<Rightarrow> int promise \<Rightarrow> world" where
  "updateDraftDream w draftId dreamTxt dreamTtl preAnalyzed ack =
     (if not_signed_in w \<or> draftId = []
      then showMessage ''error'' ''Cannot update draft. Please sign in or select a draft.'' w
      else
        let u = user_seg (userId w); w1 = emit (UpdateDoc u ''draft_dreams'' draftId) w in
        (case ack of
           Resolved ts \<Rightarrow>
             w1\<lparr>draft_dreams := (draft_dreams w1)
                  (u := map (\<lambda>(i, d). if i = draftId
                                then (i, \<lparr>draftText = dreamTxt, draftTitle = dreamTtl,
                                          draftTimestamp = ts, isPreAnalyzed = preAnalyzed\<rparr>)
                                else (i, d)) (draft_dreams w1 u))\<rparr>
         | Rejected m \<Rightarrow> showMessage ''error'' (''Failed to update draft dream: '' @ m) w1))"

definition deleteDraftDream :: "world \<Rightarrow> string \<Rightarrow> unit promise \<Rightarrow> world" where
  "deleteDraftDream w draftId ack =
     (if not_signed_in w \<or> draftId = []
      then showMessage ''error'' ''Cannot delete draft. Please sign in or select a draft.'' w
      else
        let u = user_seg (userId w); w1 = emit (DeleteDoc u ''draft_dreams'' draftId) w in
        (case ack of
           Resolved x \<Rightarrow>
             let w2 = showMessage ''success'' ''Draft dream deleted!''
                        (w1\<lparr>draft_dreams := (draft_dreams w1)
                             (u := filter (\<lambda>(i, d). i \<noteq> draftId) (draft_dreams w1 u))\<rparr>)
             in if currentDraftId w2 = Some draftId
                then w2\<lparr>dreamInputDraft := [], dreamTitleDraft := [], currentDraftId := None\<rparr>
                else w2
         | Rejected m \<Rightarrow> showMessage ''error'' (''Failed to delete draft dream: '' @ m) w1))"

definition saveAnalyzedDream ::
  "world \<Rightarrow> string \<Rightarrow> string \<Rightarrow> string \<Rightarrow> (string \<times> int) promise \<Rightarrow> world" where
  "saveAnalyzedDream w dreamTxt analysisJsonString dreamTtl ack =
     (if not_signed_in w then showMessage ''error'' ''Please sign in to save dreams.'' w
      else
        let u = user_seg (userId w); w1 = emit (AddDoc u ''archived_dreams'') w in
        (case ack of
           Resolved (newId, ts) \<Rightarrow>
             showMessage ''success'' ''Dream analyzed and archived successfully!''
               (w1\<lparr>archived_dreams := (archived_dreams w1)
                  (u := archived_dreams w1 u @
                     [(newId, \<lparr>dreamText = Some dreamTxt, analysisText = Some analysisJsonString,
                               dreamTitle = Some dreamTtl, timestamp = Some ts,
                               matchedRealityEvent = Some []\<rparr>)])\<rparr>)
         | Rejected m \<Rightarrow> showMessage ''error'' (''Failed to save analyzed dream: '' @ m) w1))"

definition deleteArchivedDream :: "world \<Rightarrow> string \<Rightarrow> unit promise \<Rightarrow> world" where
  "deleteArchivedDream w dreamId ack =
     (if not_signed_in w \<or> dreamId = []
      then showMessage ''error'' ''Cannot delete archived dream. Please sign in or select a dream.'' w
      else
        let u = user_seg (userId w); w1 = emit (DeleteDoc u ''archived_dreams'' dreamId) w in
        (case ack of
           Resolved x \<Rightarrow>
             showMessage ''success'' ''Archived dream deleted!''
               (w1\<lparr>archived_dreams := (archived_dreams w1)
                    (u := filter (\<lambda>(i, d). i \<noteq> dreamId) (archived_dreams w1 u))\<rparr>)
         | Rejected m \<Rightarrow> showMessage ''error'' (''Failed to delete archived dream: '' @ m) w1))"

text \<open>
  The three list loaders subscribe to a query with \<open>onSnapshot\<close> when the user is signed
  in and write a hint into their list otherwise.
\<close>

definition loadDraftDreams :: "world \<Rightarrow> world" where
  "loadDraftDreams w =
     (if not_signed_in w then w else emit (OnSnapshot (user_seg (userId w)) ''draft_dreams'') w)"

definition loadArchivedDreams :: "world \<Rightarrow> world" where
  "loadArchivedDreams w =
     (if not_signed_in w then w else emit (OnSnapshot (user_seg (userId w)) ''archived_dreams'') w)"

definition loadMatchedDreams :: "world \<Rightarrow> world" where
  "loadMatchedDreams w =
     (if not_signed_in w then w else emit (OnSnapshot (user_seg (userId w)) ''archived_dreams'') w)"

text \<open>
  \<open>analyzeAndArchiveDream\<close> awaits the analysis, the archive write and the draft
  delete. None of the three callees rethrows: each catches its own errors and shows a
  message, so the \<open>catch\<close> of this function is never entered.
\<close>

record archive_env =
  analysis_fetch :: fetch_outcome
  archive_write :: "(string \<times> int) promise"
  draft_delete :: "unit promise"

definition analyzeAndArchiveDream ::
  "world \<Rightarrow> string \<Rightarrow> string \<Rightarrow> string \<Rightarrow> archive_env \<Rightarrow> world" where
  "analyzeAndArchiveDream w draftId dreamTxt dreamTtl env =
     (if not_signed_in w
      then showMessage ''error'' ''Please sign in to analyze and archive dreams.'' w
      else
        (case performDreamAnalysis w dreamTxt dreamTtl True None (analysis_fetch env) of
           (RetString analysisJsonString, w1) \<Rightarrow>
             if analysisJsonString \<noteq> [] then
               let w2 = saveAnalyzedDream w1 dreamTxt analysisJsonString dreamTtl (archive_write env);
                   w3 = deleteDraftDream w2 draftId (draft_delete env);
                   w4 = showMessage ''success'' ''Dream analyzed and moved to Archive!'' w3
               in loadDraftDreams (loadArchivedDreams w4)
             else showMessage ''error'' ''Analysis failed, dream not archived.'' w1
         | (r, w1) \<Rightarrow> showMessage ''error'' ''Analysis failed, dream not archived.'' w1))"

definition reports_success :: "world \<Rightarrow> bool" where
  "reports_success w =
     (last_message (trace w) = Some (''success'', ''Dream analyzed and moved to Archive!''))"

text \<open>
  The click handler of \<open>save-match-button\<close> (in \<open>initializeDreamsModule\<close>). It has no
  sign-in guard: it tests \<open>currentDreamIdForMatch\<close> and the trimmed input only.
\<close>

definition saveMatchClick :: "world \<Rightarrow> unit promise \<Rightarrow> world" where
  "saveMatchClick w ack =
     (if falsy (currentDreamIdForMatch w)
      then showMessage ''error'' ''No dream selected for matching.'' w
      else
        let matchedEventText = trim (matchedEventInput w) in
        if matchedEventText = []
        then showMessage ''info'' ''Please describe the matched reality event.'' w
        else
          let u = user_seg (userId w);
              dreamId = the (currentDreamIdForMatch w);
              w1 = emit (UpdateDoc u ''archived_dreams'' dreamId) w
          in (case ack of
                Resolved x \<Rightarrow>
                  let w2 = showMessage ''success'' ''Reality match saved!''
                             (w1\<lparr>archived_dreams := (archived_dreams w1)
                                  (u := map (\<lambda>(i, d). if i = dreamId
                                              then (i, d\<lparr>matchedRealityEvent := Some matchedEventText\<rparr>)
                                              else (i, d)) (archived_dreams w1 u))\<rparr>)
                  in loadMatchedDreams
                       (w2\<lparr>addMatchModalHidden := True, matchedEventInput := [],
                           currentDreamIdForMatch := None\<rparr>)
              | Rejected m \<Rightarrow> showMessage ''error'' (''Failed to save reality match: '' @ m) w1))"

definition cancelMatchClick :: "world \<Rightarrow> world" where
  "cancelMatchClick w =
     w\<lparr>addMatchModalHidden := True, matchedEventInput := [], currentDreamIdForMatch := None\<rparr>"

text \<open>
  The click handler of \<open>add-dream-button\<close>: it saves the trimmed input as a new draft,
  or updates the draft being edited, and shows its own success message afterwards
  without looking at what the callee did. \<open>ack\<close> answers the \<open>addDoc\<close>, \<open>ack'\<close> the
  \<open>updateDoc\<close>.
\<close>

definition addDreamClick :: "world \<Rightarrow> (string \<times> int) promise \<Rightarrow> int promise \<Rightarrow> world" where
  "addDreamClick w ack ack' =
     (let dreamTxt = trim (dreamInputDraft w); dreamTtl = trim (dreamTitleDraft w) in
      if dreamTxt = [] then showMessage ''info'' ''Please enter some text for your dream.'' w
      else
        let w1 = (if falsy (currentDraftId w)
                  then showMessage ''success'' ''New dream added to drafts!''
                         (snd (saveDraftDream w dreamTxt dreamTtl False ack))
                  else showMessage ''success'' ''Draft dream updated!''
                         ((updateDraftDream w (the (currentDraftId w)) dreamTxt dreamTtl False ack')
                            \<lparr>currentDraftId := None\<rparr>))
        in loadDraftDreams (w1\<lparr>dreamInputDraft := [], dreamTitleDraft := []\<rparr>))"

text \<open>
  \<open>openMatchModalForSearch\<close> assigns \<open>currentDreamIdForMatch\<close> first and then reads
  \<open>dreamText.substring\<close>, which throws a TypeError when the text is \<open>undefined\<close>: the
  exception leaves the event handler uncaught, the modal stays as it was.
\<close>

definition openMatchModalForSearch :: "world \<Rightarrow> string \<Rightarrow> string option \<Rightarrow> string \<Rightarrow> world" where
  "openMatchModalForSearch w dreamId dreamTxt existingMatchText =
     (case dreamTxt of
        None \<Rightarrow> emit (Uncaught ''TypeError'') (w\<lparr>currentDreamIdForMatch := Some dreamId\<rparr>)
      | Some t \<Rightarrow>
          w\<lparr>currentDreamIdForMatch := Some dreamId, matchedEventInput := existingMatchText,
            addMatchModalHidden := False\<rparr>)"

text \<open>The match workflow: the modal is opened, saved from or cancelled, in any order.\<close>

datatype match_action =
    OpenModal string "string option" string
  | SaveClick "unit promise"
  | CancelClick

fun match_step :: "world \<Rightarrow> match_action \<Rightarrow> world" where
  "match_step w (OpenModal dreamId dreamTxt existing) = openMatchModalForSearch w dreamId dreamTxt existing"
| "match_step w (SaveClick ack) = saveMatchClick w ack"
| "match_step w CancelClick = cancelMatchClick w"

definition match_run :: "world \<Rightarrow> match_action list \<Rightarrow> world" where
  "match_run w acts = foldl match_step w acts"

text \<open>
  Two relations between a stored dream before and after: every other field is as it
  was and the match is as it was or a non-empty string; and a matched dream is still
  matched.
\<close>

definition match_kept :: "string \<times> archived_dream \<Rightarrow> string \<times> archived_dream \<Rightarrow> bool" where
  "match_kept x y =
     (fst y = fst x
      \<and> dreamText (snd y) = dreamText (snd x)
      \<and> analysisText (snd y) = analysisText (snd x)
      \<and> dreamTitle (snd y) = dreamTitle (snd x)
      \<and> timestamp (snd y) = timestamp (snd x)
      \<and> (matchedRealityEvent (snd y) = matchedRealityEvent (snd x)
         \<or> \<not> falsy (matchedRealityEvent (snd y))))"

definition stays_matched :: "string \<times> archived_dream \<Rightarrow> string \<times> archived_dream \<Rightarrow> bool" where
  "stays_matched x y =
     (fst y = fst x
      \<and> (falsy (matchedRealityEvent (snd x)) \<or> \<not> falsy (matchedRealityEvent (snd y))))"

section \<open>The Reality Log (reality-module.js)\<close>

definition saveDailyEvent :: "world \<Rightarrow> string \<Rightarrow> (string \<times> int) promise \<Rightarrow> world" where
  "saveDailyEvent w eventTxt ack =
     (if not_signed_in w then showMessage ''error'' ''Please sign in to log daily events.'' w
      else
        let u = user_seg (userId w); w1 = emit (AddDoc u ''daily_events'') w in
        (case ack of
           Resolved (newId, ts) \<Rightarrow>
             showMessage ''success'' ''Daily event logged!''
               (w1\<lparr>daily_events := (daily_events w1)
                    (u := daily_events w1 u @
                       [(newId, \<lparr>eventText = Some eventTxt, eventTimestamp = Some ts\<rparr>)])\<rparr>)
         | Rejected m \<Rightarrow> showMessage ''error'' (''Failed to log daily event: '' @ m) w1))"

text \<open>
  Firestore's answer to \<open>query(collection, orderBy("timestamp", "desc"), limit(n))\<close>:
  the documents that have the field, by descending timestamp, the first \<open>n\<close> of them when
  a limit is given. A document that the store holds with timestamp \<open>None\<close> has no such
  field, and \<open>orderBy\<close> leaves it out.
\<close>

definition run_query ::
  "('d \<Rightarrow> int option) \<Rightarrow> nat option \<Rightarrow> (string \<times> 'd) list \<Rightarrow> (string \<times> 'd) list" where
  "run_query ts lim docs =
     (let ordered = sort_key (\<lambda>(i, d). - ts_or_zero (ts d)) (filter (\<lambda>(i, d). ts d \<noteq> None) docs)
      in case lim of None \<Rightarrow> ordered | Some n \<Rightarrow> take n ordered)"

text \<open>
  \<open>loadDailyEvents\<close> subscribes to the query with \<open>limit(10)\<close>; the answer is the
  snapshot its callback renders for the present state of the store.
\<close>

definition loadDailyEvents :: "world \<Rightarrow> (string \<times> daily_event) list option \<times> world" where
  "loadDailyEvents w =
     (if not_signed_in w then (None, w)
      else
        let u = user_seg (userId w)
        in (Some (run_query eventTimestamp (Some 10) (daily_events w u)),
            emit (OnSnapshot u ''daily_events'') w))"

section \<open>The Search & Match Engine (search-module.js)\<close>

text \<open>
  \<open>Array.prototype.sort\<close> with a comparator is stable: an element goes behind exactly
  those it compares greater than. For a consistent comparator every stable sort gives
  the result of this insertion from the right. The comparators on timestamps are
  consistent, and so is the comparator on counts as long as every count is a number or
  all of them compare equal. On a list where a string count (compared as \<open>NaN\<close>) stands
  beside two different numbers the comparator is not consistent; ECMAScript then leaves
  the order to the engine, and \<open>js_sort\<close> gives one order that need not be the engine's:
  nothing below is concluded from the order of such a list.
\<close>

fun js_insert :: "('a \<Rightarrow> 'a \<Rightarrow> int) \<Rightarrow> 'a \<Rightarrow> 'a list \<Rightarrow> 'a list" where
  "js_insert cmp x [] = [x]"
| "js_insert cmp x (y # ys) = (if cmp x y > 0 then y # js_insert cmp x ys else x # y # ys)"

definition js_sort :: "('a \<Rightarrow> 'a \<Rightarrow> int) \<Rightarrow> 'a list \<Rightarrow> 'a list" where
  "js_sort cmp xs = foldr (js_insert cmp) xs []"

text \<open>\<open>x.f ? x.f.toLowerCase() : ''\<close>.\<close>

definition lower_or_empty :: "string option \<Rightarrow> string" where
  "lower_or_empty v = (case v of None \<Rightarrow> [] | Some s \<Rightarrow> toLowerCase s)"

text \<open>
  \<open>startDate.getTime()\<close>. \<open>now\<close> is \<open>new Date().getTime()\<close>; \<open>yearAgo\<close> is the value of
  \<open>new Date(now.getFullYear() - 1, now.getMonth(), now.getDate()).getTime()\<close>, which the
  calendar of the browser computes.
\<close>

definition startDate :: "int \<Rightarrow> int \<Rightarrow> string \<Rightarrow> int" where
  "startDate now yearAgo selectedTimeScope =
     (if selectedTimeScope = ''last7Days'' then now - 7 * 24 * 60 * 60 * 1000
      else if selectedTimeScope = ''last30Days'' then now - 30 * 24 * 60 * 60 * 1000
      else if selectedTimeScope = ''lastYear'' then yearAgo
      else 0)"

record dream_hit =
  hitId :: string
  hitContent :: "string option"
  hitTitle :: "string option"
  hitTimestamp :: "int option"
  hitMatched :: string

record event_hit =
  evId :: string
  evContent :: "string option"
  evTimestamp :: "int option"

definition dream_matches :: "string \<Rightarrow> int \<Rightarrow> archived_dream \<Rightarrow> bool" where
  "dream_matches searchTerm start d =
     ((includes_str (lower_or_empty (dreamText d)) searchTerm
       \<or> includes_str (lower_or_empty (dreamTitle d)) searchTerm)
      \<and> ts_or_zero (timestamp d) \<ge> start)"

definition event_matches :: "string \<Rightarrow> int \<Rightarrow> daily_event \<Rightarrow> bool" where
  "event_matches searchTerm start e =
     (includes_str (lower_or_empty (eventText e)) searchTerm
      \<and> ts_or_zero (eventTimestamp e) \<ge> start)"

text \<open>The two \<open>forEach\<close> loops over the snapshots, pushing a hit for each match.\<close>

definition dream_hit_of :: "string \<times> archived_dream \<Rightarrow> dream_hit" where
  "dream_hit_of x =
     \<lparr>hitId = fst x, hitContent = dreamText (snd x), hitTitle = dreamTitle (snd x),
      hitTimestamp = timestamp (snd x),
      hitMatched = (case matchedRealityEvent (snd x) of None \<Rightarrow> [] | Some m \<Rightarrow> m)\<rparr>"

definition event_hit_of :: "string \<times> daily_event \<Rightarrow> event_hit" where
  "event_hit_of x =
     \<lparr>evId = fst x, evContent = eventText (snd x), evTimestamp = eventTimestamp (snd x)\<rparr>"

definition dreamResults ::
  "string \<Rightarrow> int \<Rightarrow> (string \<times> archived_dream) list \<Rightarrow> dream_hit list" where
  "dreamResults searchTerm start snapshot =
     map dream_hit_of (filter (\<lambda>x. dream_matches searchTerm start (snd x)) snapshot)"

definition eventResults ::
  "string \<Rightarrow> int \<Rightarrow> (string \<times> daily_event) list \<Rightarrow> event_hit list" where
  "eventResults searchTerm start snapshot =
     map event_hit_of (filter (\<lambda>x. event_matches searchTerm start (snd x)) snapshot)"

text \<open>
  \<open>displaySearchResults\<close> sorts both lists by descending timestamp and renders them, the
  dreams first. Rendering an item reads \<open>item.content.substring\<close>, which throws a
  TypeError for an item without content; the caller's \<open>catch\<close> receives it.
\<close>

definition displaySearchResults ::
  "dream_hit list \<Rightarrow> event_hit list \<Rightarrow> string + dream_hit list \<times> event_hit list" where
  "displaySearchResults ds es =
     (let sortedDreams = js_sort (\<lambda>a b. ts_or_zero (hitTimestamp b) - ts_or_zero (hitTimestamp a)) ds;
          sortedEvents = js_sort (\<lambda>a b. ts_or_zero (evTimestamp b) - ts_or_zero (evTimestamp a)) es
      in if list_ex (\<lambda>item. hitContent item = None) sortedDreams then Inl ''TypeError''
         else if list_ex (\<lambda>item. evContent item = None) sortedEvents then Inl ''TypeError''
         else Inr (sortedDreams, sortedEvents))"

datatype search_outcome =
    EnterSearchTerm
  | SignInToSearch
  | SearchResults "dream_hit list" "event_hit list"
  | ErrorPerformingSearch

text \<open>
  \<open>performSearch\<close>: \<open>inputValue\<close> is the value of the search box, \<open>selectedTimeScope\<close> the
  value of the scope selector, the two promises are the answers of the two \<open>getDocs\<close>.
\<close>

definition performSearch ::
  "world \<Rightarrow> string \<Rightarrow> string \<Rightarrow> int \<Rightarrow> int \<Rightarrow> (string \<times> archived_dream) list promise
     \<Rightarrow> (string \<times> daily_event) list promise \<Rightarrow> search_outcome \<times> world" where
  "performSearch w inputValue selectedTimeScope now yearAgo dreamsRead eventsRead =
     (let searchTerm = toLowerCase (trim inputValue) in
      if searchTerm = [] then (EnterSearchTerm, w)
      else if not_signed_in w then (SignInToSearch, w)
      else
        let u = user_seg (userId w);
            start = startDate now yearAgo selectedTimeScope;
            w1 = emit (GetDocs u ''archived_dreams'') w
        in (case dreamsRead of
              Rejected m \<Rightarrow>
                (ErrorPerformingSearch, showMessage ''error'' (''Failed to perform search: '' @ m) w1)
            | Resolved dreamSnapshot \<Rightarrow>
                let w2 = emit (GetDocs u ''daily_events'') w1
                in (case eventsRead of
                      Rejected m \<Rightarrow>
                        (ErrorPerformingSearch,
                         showMessage ''error'' (''Failed to perform search: '' @ m) w2)
                    | Resolved eventSnapshot \<Rightarrow>
                        (case displaySearchResults (dreamResults searchTerm start dreamSnapshot)
                                (eventResults searchTerm start eventSnapshot) of
                           Inl m \<Rightarrow>
                             (ErrorPerformingSearch,
                              showMessage ''error'' (''Failed to perform search: '' @ m) w2)
                         | Inr (ds, es) \<Rightarrow> (SearchResults ds es, w2)))))"

text \<open>The search run against the store: both queries order by timestamp and set no limit.\<close>

definition searchStore :: "world \<Rightarrow> string \<Rightarrow> string \<Rightarrow> int \<Rightarrow> int \<Rightarrow> search_outcome \<times> world" where
  "searchStore w inputValue selectedTimeScope now yearAgo =
     performSearch w inputValue selectedTimeScope now yearAgo
       (Resolved (run_query timestamp None (archived_dreams w (user_seg (userId w)))))
       (Resolved (run_query eventTimestamp None (daily_events w (user_seg (userId w)))))"

text \<open>
  The matching UI: the rendered items with the \<open>checked\<close> flag of each item's checkbox,
  and the two module variables. A selected dream is \<open>{id, content, title}\<close>, a selected
  event \<open>{id, content}\<close>.
\<close>

record search_ui =
  dreamItems :: "dream_hit list"
  eventItems :: "event_hit list"
  dreamChecked :: "bool list"
  eventChecked :: "bool list"
  selectedDreamForMatch :: "(string \<times> string option \<times> string option) option"
  selectedEventForMatch :: "(string \<times> string option) option"

definition initial_ui :: search_ui where
  "initial_ui = \<lparr>dreamItems = [], eventItems = [], dreamChecked = [], eventChecked = [],
                  selectedDreamForMatch = None, selectedEventForMatch = None\<rparr>"

text \<open>
  The \<open>change\<close> listener of the \<open>k\<close>-th dream checkbox, after the browser has toggled the
  box: the selection follows \<open>e.target.checked\<close>, every other dream checkbox is unchecked.
\<close>

definition dreamBoxChange :: "nat \<Rightarrow> search_ui \<Rightarrow> search_ui" where
  "dreamBoxChange k s =
     (if k < length (dreamChecked s) \<and> k < length (dreamItems s) then
        let checked = \<not> dreamChecked s ! k; item = dreamItems s ! k
        in s\<lparr>selectedDreamForMatch :=
                (if checked then Some (hitId item, hitContent item, hitTitle item) else None),
              dreamChecked := (map (\<lambda>b. False) (dreamChecked s))[k := checked]\<rparr>
      else s)"

definition eventBoxChange :: "nat \<Rightarrow> search_ui \<Rightarrow> search_ui" where
  "eventBoxChange k s =
     (if k < length (eventChecked s) \<and> k < length (eventItems s) then
        let checked = \<not> eventChecked s ! k; item = eventItems s ! k
        in s\<lparr>selectedEventForMatch :=
                (if checked then Some (evId item, evContent item) else None),
              eventChecked := (map (\<lambda>b. False) (eventChecked s))[k := checked]\<rparr>
      else s)"

text \<open>
  What \<open>performSearch\<close> does to the matching UI: a refused search replaces the list by
  a hint and keeps the selection; a started search replaces the list and resets the
  selection; \<open>displaySearchResults\<close> renders fresh, unchecked boxes; a failed search
  replaces the list by an error text.
\<close>

datatype ui_event =
    DreamBoxClicked nat
  | EventBoxClicked nat
  | SearchRefused
  | SearchStarted
  | SearchRendered "dream_hit list" "event_hit list"
  | SearchErrored

fun ui_step :: "search_ui \<Rightarrow> ui_event \<Rightarrow> search_ui" where
  "ui_step s (DreamBoxClicked k) = dreamBoxChange k s"
| "ui_step s (EventBoxClicked k) = eventBoxChange k s"
| "ui_step s SearchRefused =
     s\<lparr>dreamItems := [], eventItems := [], dreamChecked := [], eventChecked := []\<rparr>"
| "ui_step s SearchStarted =
     s\<lparr>dreamItems := [], eventItems := [], dreamChecked := [], eventChecked := [],
       selectedDreamForMatch := None, selectedEventForMatch := None\<rparr>"
| "ui_step s (SearchRendered ds es) =
     s\<lparr>dreamItems := ds, eventItems := es, dreamChecked := replicate (length ds) False,
       eventChecked := replicate (length es) False\<rparr>"
| "ui_step s SearchErrored =
     s\<lparr>dreamItems := [], eventItems := [], dreamChecked := [], eventChecked := []\<rparr>"

definition ui_run :: "ui_event list \<Rightarrow> search_ui" where
  "ui_run evs = foldl ui_step initial_ui evs"

definition checked_count :: "bool list \<Rightarrow> nat" where
  "checked_count bs = length (filter (\<lambda>b. b) bs)"

text \<open>
  The click handler of the button \<open>Match Selected\<close>. The template \<open>${x}\<close> prints
  \<open>undefined\<close> as the nine letters. \<open>updateMatchSelectedButtonState\<close> disables the button
  while a selection is missing; the handler tests the two selections itself, and that
  test is what is modelled.
\<close>

definition handleMatchSelectedClick :: "search_ui \<Rightarrow> world \<Rightarrow> world" where
  "handleMatchSelectedClick s w =
     (case (selectedDreamForMatch s, selectedEventForMatch s) of
        (Some (dreamId, dreamContent, dreamTtl), Some (eventId, eventContent)) \<Rightarrow>
          openMatchModalForSearch w dreamId dreamContent
            (''Matched with daily event: \"''
               @ (case eventContent of None \<Rightarrow> ''undefined'' | Some c \<Rightarrow> c) @ ''\"'')
      | _ \<Rightarrow>
          showMessage ''info'' ''Please select exactly one dream and one daily event to match.'' w)"

text \<open>
  The click listener of the button \<open>Add Match\<close> (\<open>Edit Match\<close> for a matched dream) that
  every rendered dream carries next to its checkbox. It reads the three data attributes
  of the button, which \<open>setAttribute\<close> has filled with \<open>item.id\<close>, \<open>item.content\<close> and
  \<open>item.matchedRealityEvent\<close> as strings (\<open>undefined\<close> as the nine letters), and reads
  neither of the two selections.
\<close>

definition addMatchButtonClick :: "nat \<Rightarrow> search_ui \<Rightarrow> world \<Rightarrow> world" where
  "addMatchButtonClick k s w =
     (if k < length (dreamItems s) then
        let item = dreamItems s ! k
        in openMatchModalForSearch w (hitId item)
             (Some (case hitContent item of None \<Rightarrow> ''undefined'' | Some c \<Rightarrow> c))
             (hitMatched item)
      else w)"

text \<open>
  What one run of \<open>performSearch\<close> does to the page, by its outcome: a refused search
  only replaces the list; every other search starts, which replaces the list and resets
  the selections, and then renders its results or fails.
\<close>

definition ui_events_of :: "search_outcome \<Rightarrow> ui_event list" where
  "ui_events_of outcome =
     (case outcome of
        EnterSearchTerm \<Rightarrow> [SearchRefused]
      | SignInToSearch \<Rightarrow> [SearchRefused]
      | SearchResults ds es \<Rightarrow> [SearchStarted, SearchRendered ds es]
      | ErrorPerformingSearch \<Rightarrow> [SearchStarted, SearchErrored])"

text \<open>
  What the user does on the search tab, one action after the other: a click on a dream
  checkbox, a click on an event checkbox, a search with its outcome. No search starts
  before the one before it has ended.
\<close>

datatype user_action = CheckDream nat | CheckEvent nat | RunSearch search_outcome

fun action_events :: "user_action \<Rightarrow> ui_event list" where
  "action_events (CheckDream k) = [DreamBoxClicked k]"
| "action_events (CheckEvent k) = [EventBoxClicked k]"
| "action_events (RunSearch outcome) = ui_events_of outcome"

definition history_events :: "user_action list \<Rightarrow> ui_event list" where
  "history_events acts = concat (map action_events acts)"

section \<open>The Statistics Aggregator (stats-module.js)\<close>

text \<open>
  The value of \<open>JSON.parse\<close>. Numbers carry an integer: only whether a number is zero
  matters below. An object is the list of its properties.
\<close>

datatype json =
    JNull
  | JBool bool
  | JNum int
  | JStr string
  | JArr "json list"
  | JObj "(string \<times> json) list"

datatype js_exn = SyntaxError | TypeError

definition js_truthy :: "json \<Rightarrow> bool" where
  "js_truthy v =
     (case v of JNull \<Rightarrow> False | JBool b \<Rightarrow> b | JNum n \<Rightarrow> n \<noteq> 0 | JStr s \<Rightarrow> s \<noteq> []
      | JArr xs \<Rightarrow> True | JObj kvs \<Rightarrow> True)"

text \<open>
  \<open>analysis[key]\<close> for one of the twelve field names: a TypeError on \<open>null\<close>, the
  property of an object (\<open>None\<close> is \<open>undefined\<close>), \<open>undefined\<close> on every other value.
\<close>

definition get_prop :: "json \<Rightarrow> string \<Rightarrow> js_exn + json option" where
  "get_prop v key =
     (case v of JNull \<Rightarrow> Inl TypeError | JObj kvs \<Rightarrow> Inr (map_of kvs key) | _ \<Rightarrow> Inr None)"

text \<open>
  \<open>JSON.parse(dreamData.analysisText)\<close>; \<open>parse\<close> is the parser, \<open>None\<close> where it throws
  a SyntaxError, as it does on a missing \<open>analysisText\<close>.
\<close>

definition parse_analysis :: "(string \<Rightarrow> json option) \<Rightarrow> string option \<Rightarrow> js_exn + json" where
  "parse_analysis parse t =
     (case t of None \<Rightarrow> Inl SyntaxError
      | Some s \<Rightarrow> (case parse s of None \<Rightarrow> Inl SyntaxError | Some j \<Rightarrow> Inr j))"

definition categoryKeys :: "string list" where
  "categoryKeys =
     [''actionsPerformed'', ''location'', ''timeInDream'', ''movementsThroughTime'',
      ''emotionalContent'', ''surfacePsychologicalContent'', ''workDoneInDream'',
      ''familiarPersonsSpokenTo'', ''relationToPastEvents'', ''relationToFutureEvents'',
      ''messagesReceived'', ''awarenessOfSpace'']"

text \<open>
  \<open>analysis[key] && analysis[key].trim() !== ''\<close>: calling \<open>trim\<close> on a truthy value that
  is not a string is a TypeError.
\<close>

definition field_nonempty :: "json \<Rightarrow> string \<Rightarrow> js_exn + bool" where
  "field_nonempty analysis key =
     (case get_prop analysis key of
        Inl e \<Rightarrow> Inl e
      | Inr None \<Rightarrow> Inr False
      | Inr (Some v) \<Rightarrow>
          if \<not> js_truthy v then Inr False
          else (case v of JStr s \<Rightarrow> Inr (trim s \<noteq> []) | _ \<Rightarrow> Inl TypeError))"

definition increment :: "string \<Rightarrow> (string \<times> nat) list \<Rightarrow> (string \<times> nat) list" where
  "increment key cc = map (\<lambda>(k, n). if k = key then (k, n + 1) else (k, n)) cc"

text \<open>
  The loop \<open>for (const key in categoryCounts)\<close>: an exception ends it, the increments
  made before stay.
\<close>

fun count_fields ::
  "json \<Rightarrow> string list \<Rightarrow> (string \<times> nat) list \<Rightarrow> (string \<times> nat) list \<times> js_exn option" where
  "count_fields analysis [] cc = (cc, None)"
| "count_fields analysis (key # keys) cc =
     (case field_nonempty analysis key of
        Inl e \<Rightarrow> (cc, Some e)
      | Inr b \<Rightarrow> count_fields analysis keys (if b then increment key cc else cc))"

text \<open>
  The callback of \<open>dreamsSnapshot.forEach\<close>: its \<open>try\<close> covers the parse and the loop,
  its \<open>catch\<close> warns on the console with the id of the dream. The state is the counts
  and the ids warned about.
\<close>

definition stats_callback ::
  "(string \<Rightarrow> json option) \<Rightarrow> (string \<times> nat) list \<times> string list \<Rightarrow> string \<times> archived_dream
     \<Rightarrow> js_exn + (string \<times> nat) list \<times> string list" where
  "stats_callback parse st doc =
     (case (st, doc) of
        ((cc, warned), (docId, d)) \<Rightarrow>
          (case parse_analysis parse (analysisText d) of
             Inl e \<Rightarrow> Inr (cc, warned @ [docId])
           | Inr analysis \<Rightarrow>
               (case count_fields analysis categoryKeys cc of
                  (cc', None) \<Rightarrow> Inr (cc', warned)
                | (cc', Some e) \<Rightarrow> Inr (cc', warned @ [docId]))))"

fun forEach ::
  "('s \<Rightarrow> 'a \<Rightarrow> js_exn + 's) \<Rightarrow> 'a list \<Rightarrow> 's \<Rightarrow> js_exn + 's" where
  "forEach f [] st = Inr st"
| "forEach f (x # xs) st = (case f st x of Inl e \<Rightarrow> Inl e | Inr st' \<Rightarrow> forEach f xs st')"

definition categoryCounts0 :: "(string \<times> nat) list" where
  "categoryCounts0 = map (\<lambda>k. (k, 0)) categoryKeys"

definition presenceCounts ::
  "(string \<Rightarrow> json option) \<Rightarrow> (string \<times> archived_dream) list
     \<Rightarrow> js_exn + (string \<times> nat) list \<times> string list" where
  "presenceCounts parse snapshot = forEach (stats_callback parse) snapshot (categoryCounts0, [])"

datatype stats_outcome =
    NotAvailable
  | Counts "(string \<times> nat) list" "string list"
  | StatsFailed string

definition loadDetailedDreamStats ::
  "world \<Rightarrow> (string \<Rightarrow> json option) \<Rightarrow> (string \<times> archived_dream) list promise
     \<Rightarrow> stats_outcome \<times> world" where
  "loadDetailedDreamStats w parse dreamsRead =
     (if not_signed_in w then (NotAvailable, w)
      else
        let w1 = emit (GetDocs (user_seg (userId w)) ''archived_dreams'') w in
        (case dreamsRead of
           Rejected m \<Rightarrow>
             (StatsFailed m,
              showMessage ''error'' (''Failed to load detailed dream statistics: '' @ m) w1)
         | Resolved snapshot \<Rightarrow>
             (case presenceCounts parse snapshot of
                Inl e \<Rightarrow>
                  (StatsFailed ''exception'',
                   showMessage ''error'' ''Failed to load detailed dream statistics: exception'' w1)
              | Inr (cc, warned) \<Rightarrow> (Counts cc warned, w1))))"

text \<open>
  The claims about the statistics in their own words. A dream has a field present when
  its \<open>analysisText\<close> parses to an object whose value for the field is a string that is
  not empty after trimming. An analysis is string-valued when each of the twelve fields
  is missing, falsy or a string. \<open>stats_step\<close> is the state after the callback.
\<close>

definition field_present :: "(string \<Rightarrow> json option) \<Rightarrow> string \<Rightarrow> archived_dream \<Rightarrow> bool" where
  "field_present parse key d =
     (case parse_analysis parse (analysisText d) of
        Inr (JObj kvs) \<Rightarrow> (case map_of kvs key of Some (JStr s) \<Rightarrow> trim s \<noteq> [] | _ \<Rightarrow> False)
      | _ \<Rightarrow> False)"

definition string_or_falsy :: "json option \<Rightarrow> bool" where
  "string_or_falsy v =
     (case v of None \<Rightarrow> True | Some (JStr s) \<Rightarrow> True | Some x \<Rightarrow> \<not> js_truthy x)"

definition string_valued :: "json \<Rightarrow> bool" where
  "string_valued a =
     (case a of JObj kvs \<Rightarrow> list_all (\<lambda>key. string_or_falsy (map_of kvs key)) categoryKeys
      | _ \<Rightarrow> True)"

definition analyses_string_valued ::
  "(string \<Rightarrow> json option) \<Rightarrow> (string \<times> archived_dream) list \<Rightarrow> bool" where
  "analyses_string_valued parse snapshot =
     list_all (\<lambda>x. case parse_analysis parse (analysisText (snd x)) of
                      Inl e \<Rightarrow> True | Inr a \<Rightarrow> string_valued a) snapshot"

definition stats_step ::
  "(string \<Rightarrow> json option) \<Rightarrow> (string \<times> nat) list \<times> string list \<Rightarrow> string \<times> archived_dream
     \<Rightarrow> (string \<times> nat) list \<times> string list" where
  "stats_step parse st doc = (case stats_callback parse st doc of Inl e \<Rightarrow> st | Inr st' \<Rightarrow> st')"






















text \<open>The modal's last message is an error message.\<close>

definition error_shown :: "world \<Rightarrow> bool" where
  "error_shown w = (case last_message (trace w) of None \<Rightarrow> False | Some (ty, m) \<Rightarrow> ty = ''error'')"



definition first_occurrences :: "string list \<Rightarrow> string list" where
  "first_occurrences terms = rev (remdups (rev terms))"




text \<open>Boxes of which at most one is checked: all unchecked but, at most, position \<open>k\<close>.\<close>

definition single_box :: "bool list \<Rightarrow> bool" where
  "single_box bs = (\<exists>n k b. bs = (replicate n False)[k := b])"

text \<open>
  The two selections against the boxes on the page. A checked box shows the recorded
  selection: the item of every checked dream box is the selected dream, and likewise
  for events.
\<close>

definition checked_dream_is_selected :: "search_ui \<Rightarrow> bool" where
  "checked_dream_is_selected s =
     list_all (\<lambda>k. dreamChecked s ! k \<longrightarrow>
                  k < length (dreamItems s)
                  \<and> selectedDreamForMatch s
                      = Some (hitId (dreamItems s ! k), hitContent (dreamItems s ! k),
                              hitTitle (dreamItems s ! k)))
       [0..<length (dreamChecked s)]"

definition checked_event_is_selected :: "search_ui \<Rightarrow> bool" where
  "checked_event_is_selected s =
     list_all (\<lambda>k. eventChecked s ! k \<longrightarrow>
                  k < length (eventItems s)
                  \<and> selectedEventForMatch s
                      = Some (evId (eventItems s ! k), evContent (eventItems s ! k)))
       [0..<length (eventChecked s)]"

text \<open>
  The recorded selection is on the page: when a dream is selected, a dream box is
  checked and its item is the selected dream; likewise for events.
\<close>

definition selected_dream_is_checked :: "search_ui \<Rightarrow> bool" where
  "selected_dream_is_checked s =
     (case selectedDreamForMatch s of
        None \<Rightarrow> True
      | Some x \<Rightarrow>
          list_ex (\<lambda>k. dreamChecked s ! k \<and> k < length (dreamItems s)
                       \<and> x = (hitId (dreamItems s ! k), hitContent (dreamItems s ! k),
                              hitTitle (dreamItems s ! k)))
            [0..<length (dreamChecked s)])"

definition selected_event_is_checked :: "search_ui \<Rightarrow> bool" where
  "selected_event_is_checked s =
     (case selectedEventForMatch s of
        None \<Rightarrow> True
      | Some x \<Rightarrow>
          list_ex (\<lambda>k. eventChecked s ! k \<and> k < length (eventItems s)
                       \<and> x = (evId (eventItems s ! k), evContent (eventItems s ! k)))
            [0..<length (eventChecked s)])"

text \<open>
  The events that replace the list of results without touching the selection: a
  refused search, a rendering and a failure. A history is undisturbed when none of them
  comes while a dream or an event is selected. A rendering or a failure follows the
  start of its own search, which has reset the selection and taken the boxes away, so
  it disturbs only when two searches overlap; a refused search disturbs whenever
  something is selected.
\<close>

fun replaces_list :: "ui_event \<Rightarrow> bool" where
  "replaces_list SearchRefused = True"
| "replaces_list (SearchRendered ds es) = True"
| "replaces_list SearchErrored = True"
| "replaces_list (DreamBoxClicked k) = False"
| "replaces_list (EventBoxClicked k) = False"
| "replaces_list SearchStarted = False"

fun undisturbed :: "search_ui \<Rightarrow> ui_event list \<Rightarrow> bool" where
  "undisturbed s [] = True"
| "undisturbed s (e # evs) =
     ((replaces_list e \<longrightarrow> selectedDreamForMatch s = None \<and> selectedEventForMatch s = None)
      \<and> undisturbed (ui_step s e) evs)"

text \<open>The searches that \<open>performSearch\<close> refuses: no term, or no signed-in user.\<close>

fun search_refused :: "user_action \<Rightarrow> bool" where
  "search_refused (RunSearch EnterSearchTerm) = True"
| "search_refused (RunSearch SignInToSearch) = True"
| "search_refused (RunSearch (SearchResults ds es)) = False"
| "search_refused (RunSearch ErrorPerformingSearch) = False"
| "search_refused (CheckDream k) = False"
| "search_refused (CheckEvent k) = False"

section \<open>Concrete states used in the examples\<close>

definition flying_draft :: draft_dream where
  "flying_draft = \<lparr>draftText = ''I was flying'', draftTitle = ''Flight'',
                    draftTimestamp = 1700000000000, isPreAnalyzed = False\<rparr>"

definition river_dream :: archived_dream where
  "river_dream = \<lparr>dreamText = Some ''A river at night'', analysisText = Some ''{}'',
                   dreamTitle = Some ''River'', timestamp = Some 1700000000000,
                   matchedRealityEvent = Some ''met Bob at the river''\<rparr>"

definition signed_in_world :: world where
  "signed_in_world =
     \<lparr>userId = Some ''u1'', isAuthReady = True,
      draft_dreams = (\<lambda>u. if u = ''u1'' then [(''d1'', flying_draft)] else []),
      archived_dreams = (\<lambda>u. if u = ''u1'' then [(''a1'', river_dream)] else []),
      daily_events = (\<lambda>u. []),
      currentDraftId = None, currentDreamIdForMatch = None, matchedEventInput = [],
      dreamInputDraft = [], dreamTitleDraft = [], addMatchModalHidden = True, trace = []\<rparr>"

text \<open>The user has signed out while the match modal was open on dream \<open>a1\<close>.\<close>

definition signed_out_world :: world where
  "signed_out_world =
     signed_in_world\<lparr>userId := None, currentDreamIdForMatch := Some ''a1'',
       matchedEventInput := ''met Bob'', addMatchModalHidden := False\<rparr>"

definition good_response :: fetch_outcome where
  "good_response =
     HttpResponse 200
       (Inr (GenResponse (Some [Candidate (Some (Content (Some [Part (Some ''{\"location\":\"sky\"}'')])))])))"

definition hit_a :: dream_hit where
  "hit_a = \<lparr>hitId = ''a1'', hitContent = Some ''A river at night'', hitTitle = Some ''River'',
             hitTimestamp = Some 1700000000000, hitMatched = []\<rparr>"

definition hit_b :: dream_hit where
  "hit_b = \<lparr>hitId = ''a2'', hitContent = Some ''A river in the morning'', hitTitle = None,
             hitTimestamp = Some 1600000000000, hitMatched = []\<rparr>"

definition hit_e :: event_hit where
  "hit_e = \<lparr>evId = ''e1'', evContent = Some ''Walked along the river'',
             evTimestamp = Some 1700000300000\<rparr>"

definition example_ui :: search_ui where
  "example_ui = ui_run [SearchRendered [hit_a, hit_b] [hit_e], DreamBoxClicked 0, EventBoxClicked 0]"

text \<open>
  The page after a search that found two dreams and one event; and the page after the
  first dream and the event were checked there and a search with a blank term followed.
\<close>

definition rendered_ui :: search_ui where
  "rendered_ui = ui_run (history_events [RunSearch (SearchResults [hit_a, hit_b] [hit_e])])"

definition stale_ui :: search_ui where
  "stale_ui =
     ui_run (history_events
       [RunSearch (SearchResults [hit_a, hit_b] [hit_e]), CheckDream 0, CheckEvent 0,
        RunSearch (fst (performSearch signed_in_world '' '' ''allTime'' 1700000500000 1668900000000
                          (Resolved []) (Resolved [])))])"

definition eleven_events :: "(string \<times> daily_event) list" where
  "eleven_events =
       [(''e1'', \<lparr>eventText = Some ''Walk 1'', eventTimestamp = Some 1700000000001\<rparr>),
        (''e2'', \<lparr>eventText = Some ''Walk 2'', eventTimestamp = Some 1700000000002\<rparr>),
        (''e3'', \<lparr>eventText = Some ''Walk 3'', eventTimestamp = Some 1700000000003\<rparr>),
        (''e4'', \<lparr>eventText = Some ''Walk 4'', eventTimestamp = Some 1700000000004\<rparr>),
        (''e5'', \<lparr>eventText = Some ''Walk 5'', eventTimestamp = Some 1700000000005\<rparr>),
        (''e6'', \<lparr>eventText = Some ''Walk 6'', eventTimestamp = Some 1700000000006\<rparr>),
        (''e7'', \<lparr>eventText = Some ''Walk 7'', eventTimestamp = Some 1700000000007\<rparr>),
        (''e8'', \<lparr>eventText = Some ''Walk 8'', eventTimestamp = Some 1700000000008\<rparr>),
        (''e9'', \<lparr>eventText = Some ''Walk 9'', eventTimestamp = Some 1700000000009\<rparr>),
        (''e10'', \<lparr>eventText = Some ''Walk 10'', eventTimestamp = Some 1700000000010\<rparr>),
        (''e11'', \<lparr>eventText = Some ''Walk 11'', eventTimestamp = Some 1700000000011\<rparr>)]"

definition eleven_world :: world where
  "eleven_world = signed_in_world\<lparr>daily_events := (\<lambda>u. if u = ''u1'' then eleven_events else [])\<rparr>"

definition cat_dream :: archived_dream where
  "cat_dream = \<lparr>dreamText = Some ''cat'', analysisText = Some ''{}'', dreamTitle = Some ''Pet'',
                 timestamp = Some 1700000000000, matchedRealityEvent = Some []\<rparr>"

definition untimed_dream :: archived_dream where
  "untimed_dream = river_dream\<lparr>timestamp := None\<rparr>"

definition untimed_event :: daily_event where
  "untimed_event = \<lparr>eventText = Some ''Walked along the river'', eventTimestamp = None\<rparr>"

definition untimed_title_dream :: archived_dream where
  "untimed_title_dream = \<lparr>dreamText = None, analysisText = Some ''{}'', dreamTitle = Some ''Pet'',
                           timestamp = None, matchedRealityEvent = Some []\<rparr>"

text \<open>A store that holds one dream and one event, both without a timestamp.\<close>

definition untimed_world :: world where
  "untimed_world =
     signed_in_world\<lparr>archived_dreams := (\<lambda>u. if u = ''u1'' then [(''a1'', untimed_dream)] else []),
                      daily_events := (\<lambda>u. if u = ''u1'' then [(''e1'', untimed_event)] else [])\<rparr>"

definition untitled_text_dream :: archived_dream where
  "untitled_text_dream = \<lparr>dreamText = None, analysisText = Some ''{}'', dreamTitle = Some ''Pet'',
                           timestamp = Some 1700000000000, matchedRealityEvent = Some []\<rparr>"

text \<open>
  A parser on the analysis texts of the examples; every other text, such as a truncated
  answer, is a SyntaxError.
\<close>

definition example_parse :: "string \<Rightarrow> json option" where
  "example_parse s =
     (if s = ''{\"emotionalContent\":\"calm 42\"}''
      then Some (JObj [(''emotionalContent'', JStr ''calm 42'')])
      else if s = ''{\"emotionalContent\":\"constructor sky sky\"}''
      then Some (JObj [(''emotionalContent'', JStr ''constructor sky sky'')])
      else if s = ''{\"emotionalContent\":\"Calm and happy, calm at the sea\"}''
      then Some (JObj [(''emotionalContent'', JStr ''Calm and happy, calm at the sea'')])
      else if s = ''{\"actionsPerformed\":\"ran\",\"familiarPersonsSpokenTo\":[\"Ann\"],\"messagesReceived\":\"be calm\"}''
      then Some (JObj [(''actionsPerformed'', JStr ''ran''),
                       (''familiarPersonsSpokenTo'', JArr [JStr ''Ann'']),
                       (''messagesReceived'', JStr ''be calm'')])
      else if s = ''{\"actionsPerformed\":\"ran\",\"location\":\"\",\"timeInDream\":\" \"}''
      then Some (JObj [(''actionsPerformed'', JStr ''ran''), (''location'', JStr []),
                       (''timeInDream'', JStr '' '')])
      else None)"

definition analysed :: "string \<Rightarrow> archived_dream" where
  "analysed s = \<lparr>dreamText = Some ''A dream'', analysisText = Some s, dreamTitle = Some ''Dream'',
                  timestamp = Some 1700000000000, matchedRealityEvent = Some []\<rparr>"

section \<open>Properties of the string functions\<close>

text \<open>\<open>includes_str\<close> is containment as a substring.\<close>

lemma starts_with_iff: "starts_with s t \<longleftrightarrow> (\<exists>b. s = t @ b)"
  by (induction s t rule: starts_with.induct) auto

lemma includes_str_iff: "includes_str s t \<longleftrightarrow> (\<exists>a b. s = a @ t @ b)"
proof (induction s)
  case Nil
  show ?case by auto
next
  case (Cons c s)
  have "(\<exists>a b. c # s = a @ t @ b) \<longleftrightarrow> (\<exists>b. c # s = t @ b) \<or> (\<exists>a b. s = a @ t @ b)"
  proof
    assume "\<exists>a b. c # s = a @ t @ b"
    then obtain a b where ab: "c # s = a @ t @ b" by blast
    show "(\<exists>b. c # s = t @ b) \<or> (\<exists>a b. s = a @ t @ b)"
    proof (cases a)
      case Nil
      with ab show ?thesis by auto
    next
      case (Cons x a')
      with ab have "s = a' @ t @ b" by simp
      then show ?thesis by blast
    qed
  next
    assume "(\<exists>b. c # s = t @ b) \<or> (\<exists>a b. s = a @ t @ b)"
    then show "\<exists>a b. c # s = a @ t @ b"
    proof
      assume "\<exists>b. c # s = t @ b"
      then obtain b where "c # s = [] @ t @ b" by auto
      then show ?thesis by blast
    next
      assume "\<exists>a b. s = a @ t @ b"
      then obtain a b where "c # s = (c # a) @ t @ b" by auto
      then show ?thesis by blast
    qed
  qed
  with Cons.IH show ?case by (simp add: starts_with_iff)
qed

section \<open>Properties of the lifecycle manager\<close>

lemma last_message_append:
  "last_message (es @ fs) = (case last_message fs of None \<Rightarrow> last_message es | Some r \<Rightarrow> Some r)"
  by (induction es rule: last_message.induct) (auto split: option.splits)

lemma match_kept_refl: "list_all2 match_kept xs xs"
  by (simp add: list_all2_refl match_kept_def)

lemma match_kept_trans:
  "list_all2 match_kept xs ys \<Longrightarrow> list_all2 match_kept ys zs \<Longrightarrow> list_all2 match_kept xs zs"
proof (rule list_all2_trans[where ?P1.0 = match_kept and ?P2.0 = match_kept], goal_cases)
  case (1 a b c)
  then show ?case
    by (cases a; cases b; cases c) (auto simp: match_kept_def)
qed

lemma match_kept_stays: "list_all2 match_kept xs ys \<Longrightarrow> list_all2 stays_matched xs ys"
  by (erule list_all2_mono) (auto simp: match_kept_def stays_matched_def)

lemma match_kept_map:
  "t \<noteq> [] \<Longrightarrow>
   list_all2 match_kept xs
     (map (\<lambda>(i, d). if i = k then (i, d\<lparr>matchedRealityEvent := Some t\<rparr>) else (i, d)) xs)"
  by (induction xs) (auto simp: match_kept_def falsy_def split: if_splits)

lemma saveMatchClick_kept:
  "list_all2 match_kept (archived_dreams w u) (archived_dreams (saveMatchClick w ack) u)"
  by (cases ack)
     (auto simp: saveMatchClick_def showMessage_def emit_def loadMatchedDreams_def Let_def
        match_kept_refl match_kept_map)

lemma match_step_kept:
  "list_all2 match_kept (archived_dreams w u) (archived_dreams (match_step w a) u)"
  by (cases a)
     (auto simp: saveMatchClick_kept openMatchModalForSearch_def cancelMatchClick_def emit_def
        match_kept_refl split: option.splits)

lemma match_run_kept:
  "list_all2 match_kept (archived_dreams w u) (archived_dreams (match_run w acts) u)"
  unfolding match_run_def
proof (induction acts arbitrary: w)
  case Nil
  show ?case by (simp add: match_kept_refl)
next
  case (Cons a acts)
  show ?case
    using match_kept_trans[OF match_step_kept[of w u a] Cons.IH[of "match_step w a"]] by simp
qed

lemma saveMatchClick_refused:
  "falsy (currentDreamIdForMatch w) \<or> trim (matchedEventInput w) = [] \<Longrightarrow>
   archived_dreams (saveMatchClick w ack) = archived_dreams w
   \<and> filter is_store_write (trace (saveMatchClick w ack)) = filter is_store_write (trace w)"
  by (auto simp: saveMatchClick_def showMessage_def emit_def is_store_write_def Let_def)

text \<open>
  Claim C9. The save-match handler never writes an empty match string. When no dream is
  selected or the trimmed input is empty, it leaves every archived dream as it was and
  calls no store write. In every case each archived dream keeps its other fields and
  has its match either unchanged or set to a non-empty string. Hence, through any
  sequence of opening the modal, saving and cancelling, a dream that was matched stays
  matched.
\<close>

theorem save_match_never_unmatches:
  "(falsy (currentDreamIdForMatch w) \<or> trim (matchedEventInput w) = [] \<longrightarrow>
      archived_dreams (saveMatchClick w ack) = archived_dreams w
      \<and> filter is_store_write (trace (saveMatchClick w ack)) = filter is_store_write (trace w))
   \<and> list_all2 match_kept (archived_dreams w u) (archived_dreams (saveMatchClick w ack) u)
   \<and> list_all2 stays_matched (archived_dreams w u) (archived_dreams (match_run w acts) u)"
  using saveMatchClick_refused[of w ack] saveMatchClick_kept[of w u ack]
    match_kept_stays[OF match_run_kept[of w u acts]]
  by blast

text \<open>
  The theorem at a state where dream \<open>a1\<close> is selected and the input holds blanks only,
  and along a workflow that then saves a new match for \<open>a1\<close>.
\<close>

theorem save_match_never_unmatches_witness:
  "trim (matchedEventInput (signed_in_world\<lparr>currentDreamIdForMatch := Some ''a1'', matchedEventInput := ''  ''\<rparr>)) = []
   \<and> archived_dreams
        (saveMatchClick (signed_in_world\<lparr>currentDreamIdForMatch := Some ''a1'', matchedEventInput := ''  ''\<rparr>)
           (Resolved ()))
      = archived_dreams (signed_in_world\<lparr>currentDreamIdForMatch := Some ''a1'', matchedEventInput := ''  ''\<rparr>)
   \<and> list_all2 stays_matched
        (archived_dreams (signed_in_world\<lparr>currentDreamIdForMatch := Some ''a1'', matchedEventInput := ''  ''\<rparr>) ''u1'')
        (archived_dreams
           (match_run (signed_in_world\<lparr>currentDreamIdForMatch := Some ''a1'', matchedEventInput := ''  ''\<rparr>)
              [SaveClick (Resolved ()), OpenModal ''a1'' (Some ''A river at night'') ''saw Ann'',
               SaveClick (Resolved ())]) ''u1'')"
  using save_match_never_unmatches
    [of "signed_in_world\<lparr>currentDreamIdForMatch := Some ''a1'', matchedEventInput := ''  ''\<rparr>"
        "Resolved ()" "''u1''"
        "[SaveClick (Resolved ()), OpenModal ''a1'' (Some ''A river at night'') ''saw Ann'',
          SaveClick (Resolved ())]"]
  by (simp add: trim_def is_ws_def)

text \<open>
  When the analysis, the archive write and the draft delete all succeed, success is
  reported, the draft is gone and the archive has gained one dream with the draft's text
  and an empty match.
\<close>

lemma analyze_and_archive_all_succeed:
  assumes "\<not> not_signed_in w" and "draftId \<noteq> []" and "answer \<noteq> []"
    and "analysis_fetch env = HttpResponse status
           (Inr (GenResponse (Some (Candidate (Some (Content (Some (Part (Some answer) # ps)))) # cs))))"
    and "archive_write env = Resolved (newId, ts)" and "draft_delete env = Resolved ()"
  shows "reports_success (analyzeAndArchiveDream w draftId dreamTxt dreamTtl env)
    \<and> draftId \<notin> fst ` set (draft_dreams (analyzeAndArchiveDream w draftId dreamTxt dreamTtl env)
                             (user_seg (userId w)))
    \<and> archived_dreams (analyzeAndArchiveDream w draftId dreamTxt dreamTtl env) (user_seg (userId w))
        = archived_dreams w (user_seg (userId w))
          @ [(newId, \<lparr>dreamText = Some dreamTxt, analysisText = Some answer,
                       dreamTitle = Some dreamTtl, timestamp = Some ts,
                       matchedRealityEvent = Some []\<rparr>)]"
  using assms
  by (auto simp: analyzeAndArchiveDream_def performDreamAnalysis_def first_part_def
      saveAnalyzedDream_def deleteDraftDream_def loadDraftDreams_def loadArchivedDreams_def
      reports_success_def showMessage_def emit_def not_signed_in_def Let_def last_message_append)

text \<open>
  Claim C1. The claim says that success is reported only if the analysis, the archive
  write and the draft delete all succeed, and that then the draft is gone and archived.
  The code reports success whenever the analysis returned a non-empty string:
  \<open>saveAnalyzedDream\<close> and \<open>deleteDraftDream\<close> catch their own errors, so the check of the
  analysis result is the only one. Here the archive write is rejected and the delete
  goes through: the last message is the success message, the draft is deleted and no
  archived dream with its text exists.
\<close>

theorem analyze_and_archive_reports_success_without_archive:
  "reports_success
     (analyzeAndArchiveDream signed_in_world ''d1'' ''I was flying'' ''Flight''
        \<lparr>analysis_fetch = good_response, archive_write = Rejected ''unavailable'',
         draft_delete = Resolved ()\<rparr>)
   \<and> draft_dreams
       (analyzeAndArchiveDream signed_in_world ''d1'' ''I was flying'' ''Flight''
          \<lparr>analysis_fetch = good_response, archive_write = Rejected ''unavailable'',
           draft_delete = Resolved ()\<rparr>) ''u1'' = []
   \<and> archived_dreams
       (analyzeAndArchiveDream signed_in_world ''d1'' ''I was flying'' ''Flight''
          \<lparr>analysis_fetch = good_response, archive_write = Rejected ''unavailable'',
           draft_delete = Resolved ()\<rparr>) ''u1'' = [(''a1'', river_dream)]"
  by (simp add: analyzeAndArchiveDream_def performDreamAnalysis_def saveAnalyzedDream_def
      deleteDraftDream_def loadDraftDreams_def loadArchivedDreams_def reports_success_def
      signed_in_world_def good_response_def first_part_def not_signed_in_def falsy_def
      showMessage_def emit_def user_seg_def Let_def)

text \<open>
  The guarded operations, called without a signed-in user, only show their message (the
  search and the loaders write a hint into the page): no call to the store or the
  network is made.
\<close>

lemma guarded_operations_refuse:
  assumes "not_signed_in w"
  shows "saveDraftDream w dreamTxt dreamTtl pre ack1
           = (None, showMessage ''error'' ''Please sign in to save dreams.'' w)"
    and "updateDraftDream w draftId dreamTxt dreamTtl pre ack2
           = showMessage ''error'' ''Cannot update draft. Please sign in or select a draft.'' w"
    and "deleteDraftDream w draftId ack3
           = showMessage ''error'' ''Cannot delete draft. Please sign in or select a draft.'' w"
    and "saveAnalyzedDream w dreamTxt analysisJson dreamTtl ack1
           = showMessage ''error'' ''Please sign in to save dreams.'' w"
    and "deleteArchivedDream w dreamId ack3
           = showMessage ''error'' ''Cannot delete archived dream. Please sign in or select a dream.'' w"
    and "analyzeAndArchiveDream w draftId dreamTxt dreamTtl env
           = showMessage ''error'' ''Please sign in to analyze and archive dreams.'' w"
    and "performDreamAnalysis w dreamTxt dreamTtl forArchiving checkedFormat outcome
           = (RetNull, showMessage ''error'' ''Please sign in to analyze dreams.'' w)"
    and "saveDailyEvent w eventTxt ack1
           = showMessage ''error'' ''Please sign in to log daily events.'' w"
    and "loadDailyEvents w = (None, w)"
    and "snd (performSearch w inputValue scope now yearAgo dreamsRead eventsRead) = w"
    and "loadDetailedDreamStats w parse dreamsRead = (NotAvailable, w)"
  using assms
  by (simp_all add: saveDraftDream_def updateDraftDream_def deleteDraftDream_def
      saveAnalyzedDream_def deleteArchivedDream_def analyzeAndArchiveDream_def
      performDreamAnalysis_def saveDailyEvent_def loadDailyEvents_def performSearch_def
      loadDetailedDreamStats_def Let_def)

text \<open>
  Claim C8. The claim says that every data operation is refused when the user is not
  signed in, with a message and no write to the store. The functions of the modules
  start with the guard \<open>!userId || !isAuthReady\<close>; the click handler that saves a match
  does not. With \<open>userId = null\<close> it calls \<open>updateDoc\<close> on the path of user \<open>null\<close>. The
  click handler that adds a dream calls the guarded \<open>saveDraftDream\<close>, which refuses, and
  then shows its success message over the refusal.
\<close>

theorem save_match_writes_when_signed_out:
  "not_signed_in signed_out_world
   \<and> trace (saveMatchClick signed_out_world (Rejected ''permission-denied''))
     = [UpdateDoc ''null'' ''archived_dreams'' ''a1'',
        ShowMessage ''error'' ''Failed to save reality match: permission-denied'']
   \<and> trace (addDreamClick (signed_out_world\<lparr>dreamInputDraft := ''I was flying''\<rparr>)
              (Rejected ''permission-denied'') (Rejected ''permission-denied''))
     = [ShowMessage ''error'' ''Please sign in to save dreams.'',
        ShowMessage ''success'' ''New dream added to drafts!'']"
  by (simp add: saveMatchClick_def addDreamClick_def saveDraftDream_def loadDraftDreams_def
      signed_out_world_def signed_in_world_def not_signed_in_def
      falsy_def trim_def is_ws_def showMessage_def emit_def user_seg_def Let_def)

section \<open>Properties of the matching UI\<close>

lemma checked_count_single: "checked_count ((replicate n False)[k := b]) \<le> 1"
proof (induction n arbitrary: k)
  case 0
  show ?case by (simp add: checked_count_def)
next
  case (Suc n)
  show ?case
  proof (cases k)
    case 0
    then show ?thesis by (simp add: checked_count_def)
  next
    case (Suc j)
    then show ?thesis using Suc.IH[of j] by (simp add: checked_count_def)
  qed
qed

lemma single_box_replicate: "single_box (replicate n False)"
  unfolding single_box_def
  by (rule exI[of _ n], rule exI[of _ n], rule exI[of _ False]) (simp add: list_update_beyond)

lemma single_box_Nil: "single_box []"
  using single_box_replicate[of 0] by simp

lemma single_box_update: "single_box ((map (\<lambda>b. False) bs)[k := c])"
  unfolding single_box_def
  by (rule exI[of _ "length bs"], rule exI[of _ k], rule exI[of _ c]) (simp add: map_replicate_const)

lemma ui_step_boxes:
  "single_box (dreamChecked s) \<and> single_box (eventChecked s) \<Longrightarrow>
   single_box (dreamChecked (ui_step s e)) \<and> single_box (eventChecked (ui_step s e))"
  by (cases e)
     (auto simp: dreamBoxChange_def eventBoxChange_def Let_def single_box_update
        single_box_replicate single_box_Nil)

lemma foldl_ui_boxes:
  "single_box (dreamChecked s) \<and> single_box (eventChecked s) \<Longrightarrow>
   single_box (dreamChecked (foldl ui_step s evs)) \<and> single_box (eventChecked (foldl ui_step s evs))"
proof (induction evs arbitrary: s)
  case Nil
  then show ?case by simp
next
  case (Cons e evs)
  from Cons.IH[OF ui_step_boxes[OF Cons.prems, of e]] show ?case by simp
qed

lemma ui_run_boxes:
  "single_box (dreamChecked (ui_run evs)) \<and> single_box (eventChecked (ui_run evs))"
  unfolding ui_run_def
  by (rule foldl_ui_boxes) (simp add: initial_ui_def single_box_Nil)

lemma single_box_count: "single_box bs \<Longrightarrow> checked_count bs \<le> 1"
  unfolding single_box_def using checked_count_single by auto

lemma handleMatch_refuses:
  "selectedDreamForMatch s = None \<or> selectedEventForMatch s = None \<Longrightarrow>
   handleMatchSelectedClick s w
     = showMessage ''info'' ''Please select exactly one dream and one daily event to match.'' w"
  by (auto simp: handleMatchSelectedClick_def split: option.splits prod.splits)

lemma handleMatch_proceeds:
  "selectedDreamForMatch s = Some (i, c, t) \<Longrightarrow> selectedEventForMatch s = Some (j, e) \<Longrightarrow>
   handleMatchSelectedClick s w
     = openMatchModalForSearch w i c
         (''Matched with daily event: \"'' @ (case e of None \<Rightarrow> ''undefined'' | Some x \<Rightarrow> x) @ ''\"'')"
  by (simp add: handleMatchSelectedClick_def)

lemma checked_count_pos: "k < length bs \<Longrightarrow> bs ! k \<Longrightarrow> 1 \<le> checked_count bs"
proof -
  assume k: "k < length bs" and b: "bs ! k"
  then have "True \<in> set bs" by (metis nth_mem)
  then have "filter (\<lambda>b. b) bs \<noteq> []" by (auto simp: filter_empty_conv)
  then show ?thesis by (cases "filter (\<lambda>b. b) bs") (simp_all add: checked_count_def)
qed

lemma ui_step_checked_selected:
  "checked_dream_is_selected s \<and> checked_event_is_selected s \<Longrightarrow>
   checked_dream_is_selected (ui_step s e) \<and> checked_event_is_selected (ui_step s e)"
  by (cases e)
     (auto simp: checked_dream_is_selected_def checked_event_is_selected_def list_all_iff
        dreamBoxChange_def eventBoxChange_def Let_def nth_list_update)

lemma foldl_checked_selected:
  "checked_dream_is_selected s \<and> checked_event_is_selected s \<Longrightarrow>
   checked_dream_is_selected (foldl ui_step s evs) \<and> checked_event_is_selected (foldl ui_step s evs)"
proof (induction evs arbitrary: s)
  case Nil
  then show ?case by simp
next
  case (Cons e evs)
  from Cons.IH[OF ui_step_checked_selected[OF Cons.prems, of e]] show ?case by simp
qed

lemma ui_run_checked_selected:
  "checked_dream_is_selected (ui_run evs) \<and> checked_event_is_selected (ui_run evs)"
  unfolding ui_run_def
  by (rule foldl_checked_selected)
     (simp add: initial_ui_def checked_dream_is_selected_def checked_event_is_selected_def)

lemma ui_step_selected_checked:
  "selected_dream_is_checked s \<and> selected_event_is_checked s \<Longrightarrow>
   (replaces_list e \<longrightarrow> selectedDreamForMatch s = None \<and> selectedEventForMatch s = None) \<Longrightarrow>
   selected_dream_is_checked (ui_step s e) \<and> selected_event_is_checked (ui_step s e)"
  by (cases e)
     (auto simp: selected_dream_is_checked_def selected_event_is_checked_def list_ex_iff
        dreamBoxChange_def eventBoxChange_def Let_def nth_list_update split: option.splits)

lemma foldl_selected_checked:
  "undisturbed s evs \<Longrightarrow> selected_dream_is_checked s \<and> selected_event_is_checked s \<Longrightarrow>
   selected_dream_is_checked (foldl ui_step s evs) \<and> selected_event_is_checked (foldl ui_step s evs)"
proof (induction evs arbitrary: s)
  case Nil
  then show ?case by simp
next
  case (Cons e evs)
  from Cons.prems(1) have d: "replaces_list e \<longrightarrow> selectedDreamForMatch s = None \<and> selectedEventForMatch s = None"
    and u: "undisturbed (ui_step s e) evs" by simp_all
  from Cons.IH[OF u ui_step_selected_checked[OF Cons.prems(2) d]] show ?case by simp
qed

lemma ui_run_selected_checked:
  "undisturbed initial_ui evs \<Longrightarrow>
   selected_dream_is_checked (ui_run evs) \<and> selected_event_is_checked (ui_run evs)"
  unfolding ui_run_def
  by (rule foldl_selected_checked)
     (simp_all add: initial_ui_def selected_dream_is_checked_def selected_event_is_checked_def)

lemma selected_dream_count:
  "selected_dream_is_checked s \<Longrightarrow> selectedDreamForMatch s \<noteq> None \<Longrightarrow> 1 \<le> checked_count (dreamChecked s)"
  using checked_count_pos[of _ "dreamChecked s"]
  by (auto simp: selected_dream_is_checked_def list_ex_iff split: option.splits)

lemma selected_event_count:
  "selected_event_is_checked s \<Longrightarrow> selectedEventForMatch s \<noteq> None \<Longrightarrow> 1 \<le> checked_count (eventChecked s)"
  using checked_count_pos[of _ "eventChecked s"]
  by (auto simp: selected_event_is_checked_def list_ex_iff split: option.splits)

lemma dreamBoxChange_selects:
  "k < length (dreamChecked s) \<Longrightarrow> k < length (dreamItems s) \<Longrightarrow>
   (if dreamChecked s ! k
    then dreamChecked (dreamBoxChange k s) = replicate (length (dreamChecked s)) False
         \<and> selectedDreamForMatch (dreamBoxChange k s) = None
    else dreamChecked (dreamBoxChange k s) = (replicate (length (dreamChecked s)) False)[k := True]
         \<and> selectedDreamForMatch (dreamBoxChange k s)
             = Some (hitId (dreamItems s ! k), hitContent (dreamItems s ! k), hitTitle (dreamItems s ! k)))"
  by (simp add: dreamBoxChange_def Let_def map_replicate_const list_update_same_conv)

lemma eventBoxChange_selects:
  "k < length (eventChecked s) \<Longrightarrow> k < length (eventItems s) \<Longrightarrow>
   (if eventChecked s ! k
    then eventChecked (eventBoxChange k s) = replicate (length (eventChecked s)) False
         \<and> selectedEventForMatch (eventBoxChange k s) = None
    else eventChecked (eventBoxChange k s) = (replicate (length (eventChecked s)) False)[k := True]
         \<and> selectedEventForMatch (eventBoxChange k s)
             = Some (evId (eventItems s ! k), evContent (eventItems s ! k)))"
  by (simp add: eventBoxChange_def Let_def map_replicate_const list_update_same_conv)

lemma handleMatch_proceeds_selected:
  "handleMatchSelectedClick s w
     \<noteq> showMessage ''info'' ''Please select exactly one dream and one daily event to match.'' w \<Longrightarrow>
   selectedDreamForMatch s \<noteq> None \<and> selectedEventForMatch s \<noteq> None"
proof (rule ccontr)
  assume p: "handleMatchSelectedClick s w
     \<noteq> showMessage ''info'' ''Please select exactly one dream and one daily event to match.'' w"
    and n: "\<not> (selectedDreamForMatch s \<noteq> None \<and> selectedEventForMatch s \<noteq> None)"
  from n have "selectedDreamForMatch s = None \<or> selectedEventForMatch s = None" by blast
  from handleMatch_refuses[OF this, of w] p show False by blast
qed

lemma addMatchButtonClick_opens:
  "k < length (dreamItems s) \<Longrightarrow>
   currentDreamIdForMatch (addMatchButtonClick k s w) = Some (hitId (dreamItems s ! k))
   \<and> \<not> addMatchModalHidden (addMatchButtonClick k s w)
   \<and> matchedEventInput (addMatchButtonClick k s w) = hitMatched (dreamItems s ! k)"
  by (simp add: addMatchButtonClick_def openMatchModalForSearch_def Let_def)

lemma undisturbed_append:
  "undisturbed s (xs @ ys) = (undisturbed s xs \<and> undisturbed (foldl ui_step s xs) ys)"
  by (induction xs arbitrary: s) auto

lemma action_undisturbed: "\<not> search_refused a \<Longrightarrow> undisturbed s (action_events a)"
  by (cases a rule: search_refused.cases) (simp_all add: ui_events_of_def)

lemma history_undisturbed:
  "\<not> list_ex search_refused acts \<Longrightarrow> undisturbed s (history_events acts)"
proof (induction acts arbitrary: s)
  case Nil
  show ?case by (simp add: history_events_def)
next
  case (Cons a acts)
  from Cons.prems have a: "\<not> search_refused a" and r: "\<not> list_ex search_refused acts" by simp_all
  from Cons.IH[OF r] have "undisturbed (foldl ui_step s (action_events a)) (history_events acts)" .
  with action_undisturbed[OF a, of s] show ?case
    by (simp add: history_events_def undisturbed_append)
qed

text \<open>
  Claim C6, as amended. After any sequence of checkbox clicks and searches at most one
  dream checkbox and at most one event checkbox is checked, and the item of a checked
  box is the recorded selection of its kind. Checking a box makes its item the
  selection and leaves it as the only checked box of its kind, so a dream or event
  checked before is deselected; unchecking a box clears the selection. The button
  \<open>Match Selected\<close> goes on to \<open>openMatchModalForSearch\<close>, for the selected dream, exactly
  when a dream and an event are both recorded as selected, and otherwise only asks to
  select one of each. In an undisturbed history the recorded selections are on the
  page, so the button goes on only when exactly one dream box and exactly one event
  box are checked; every history of clicks and searches in which no search is refused
  is undisturbed. The button \<open>Add Match\<close> of a rendered dream opens the match modal on
  that dream whatever is selected.
\<close>

theorem single_selection_and_match:
  "checked_count (dreamChecked (ui_run evs)) \<le> 1
   \<and> checked_count (eventChecked (ui_run evs)) \<le> 1
   \<and> checked_dream_is_selected (ui_run evs)
   \<and> checked_event_is_selected (ui_run evs)
   \<and> (undisturbed initial_ui evs \<longrightarrow>
        selected_dream_is_checked (ui_run evs) \<and> selected_event_is_checked (ui_run evs))
   \<and> (undisturbed initial_ui evs
        \<and> handleMatchSelectedClick (ui_run evs) w
            \<noteq> showMessage ''info'' ''Please select exactly one dream and one daily event to match.'' w \<longrightarrow>
        checked_count (dreamChecked (ui_run evs)) = 1 \<and> checked_count (eventChecked (ui_run evs)) = 1)
   \<and> (\<not> list_ex search_refused acts \<longrightarrow> undisturbed initial_ui (history_events acts))
   \<and> (k < length (dreamChecked s) \<and> k < length (dreamItems s) \<longrightarrow>
        (if dreamChecked s ! k
         then dreamChecked (dreamBoxChange k s) = replicate (length (dreamChecked s)) False
              \<and> selectedDreamForMatch (dreamBoxChange k s) = None
         else dreamChecked (dreamBoxChange k s) = (replicate (length (dreamChecked s)) False)[k := True]
              \<and> selectedDreamForMatch (dreamBoxChange k s)
                  = Some (hitId (dreamItems s ! k), hitContent (dreamItems s ! k),
                          hitTitle (dreamItems s ! k))))
   \<and> (k < length (eventChecked s) \<and> k < length (eventItems s) \<longrightarrow>
        (if eventChecked s ! k
         then eventChecked (eventBoxChange k s) = replicate (length (eventChecked s)) False
              \<and> selectedEventForMatch (eventBoxChange k s) = None
         else eventChecked (eventBoxChange k s) = (replicate (length (eventChecked s)) False)[k := True]
              \<and> selectedEventForMatch (eventBoxChange k s)
                  = Some (evId (eventItems s ! k), evContent (eventItems s ! k))))
   \<and> (selectedDreamForMatch s = None \<or> selectedEventForMatch s = None \<longrightarrow>
        handleMatchSelectedClick s w
          = showMessage ''info'' ''Please select exactly one dream and one daily event to match.'' w)
   \<and> (selectedDreamForMatch s = Some (i, c, t) \<and> selectedEventForMatch s = Some (j, e) \<longrightarrow>
        handleMatchSelectedClick s w
          = openMatchModalForSearch w i c
              (''Matched with daily event: \"'' @ (case e of None \<Rightarrow> ''undefined'' | Some x \<Rightarrow> x) @ ''\"''))
   \<and> (k < length (dreamItems s) \<longrightarrow>
        currentDreamIdForMatch (addMatchButtonClick k s w) = Some (hitId (dreamItems s ! k))
        \<and> \<not> addMatchModalHidden (addMatchButtonClick k s w)
        \<and> matchedEventInput (addMatchButtonClick k s w) = hitMatched (dreamItems s ! k))"
proof -
  have boxes: "checked_count (dreamChecked (ui_run evs)) \<le> 1
               \<and> checked_count (eventChecked (ui_run evs)) \<le> 1"
    using single_box_count[of "dreamChecked (ui_run evs)"]
      single_box_count[of "eventChecked (ui_run evs)"] ui_run_boxes[of evs]
    by blast
  have shown: "checked_dream_is_selected (ui_run evs) \<and> checked_event_is_selected (ui_run evs)"
    by (rule ui_run_checked_selected)
  have onpage: "undisturbed initial_ui evs \<longrightarrow>
                selected_dream_is_checked (ui_run evs) \<and> selected_event_is_checked (ui_run evs)"
    using ui_run_selected_checked[of evs] by blast
  have one: "undisturbed initial_ui evs
        \<and> handleMatchSelectedClick (ui_run evs) w
            \<noteq> showMessage ''info'' ''Please select exactly one dream and one daily event to match.'' w \<longrightarrow>
        checked_count (dreamChecked (ui_run evs)) = 1 \<and> checked_count (eventChecked (ui_run evs)) = 1"
  proof
    assume a: "undisturbed initial_ui evs
        \<and> handleMatchSelectedClick (ui_run evs) w
            \<noteq> showMessage ''info'' ''Please select exactly one dream and one daily event to match.'' w"
    then have sel: "selectedDreamForMatch (ui_run evs) \<noteq> None \<and> selectedEventForMatch (ui_run evs) \<noteq> None"
      using handleMatch_proceeds_selected[of "ui_run evs" w] by blast
    from a onpage have pg: "selected_dream_is_checked (ui_run evs) \<and> selected_event_is_checked (ui_run evs)"
      by blast
    have "1 \<le> checked_count (dreamChecked (ui_run evs))"
      using selected_dream_count[of "ui_run evs"] pg sel by blast
    moreover have "1 \<le> checked_count (eventChecked (ui_run evs))"
      using selected_event_count[of "ui_run evs"] pg sel by blast
    ultimately show "checked_count (dreamChecked (ui_run evs)) = 1
                     \<and> checked_count (eventChecked (ui_run evs)) = 1"
      using boxes by linarith
  qed
  have dbox: "k < length (dreamChecked s) \<and> k < length (dreamItems s) \<longrightarrow>
        (if dreamChecked s ! k
         then dreamChecked (dreamBoxChange k s) = replicate (length (dreamChecked s)) False
              \<and> selectedDreamForMatch (dreamBoxChange k s) = None
         else dreamChecked (dreamBoxChange k s) = (replicate (length (dreamChecked s)) False)[k := True]
              \<and> selectedDreamForMatch (dreamBoxChange k s)
                  = Some (hitId (dreamItems s ! k), hitContent (dreamItems s ! k),
                          hitTitle (dreamItems s ! k)))"
    using dreamBoxChange_selects[of k s] by blast
  have ebox: "k < length (eventChecked s) \<and> k < length (eventItems s) \<longrightarrow>
        (if eventChecked s ! k
         then eventChecked (eventBoxChange k s) = replicate (length (eventChecked s)) False
              \<and> selectedEventForMatch (eventBoxChange k s) = None
         else eventChecked (eventBoxChange k s) = (replicate (length (eventChecked s)) False)[k := True]
              \<and> selectedEventForMatch (eventBoxChange k s)
                  = Some (evId (eventItems s ! k), evContent (eventItems s ! k)))"
    using eventBoxChange_selects[of k s] by blast
  have refuse: "selectedDreamForMatch s = None \<or> selectedEventForMatch s = None \<longrightarrow>
        handleMatchSelectedClick s w
          = showMessage ''info'' ''Please select exactly one dream and one daily event to match.'' w"
    using handleMatch_refuses[of s w] by blast
  have proceed: "selectedDreamForMatch s = Some (i, c, t) \<and> selectedEventForMatch s = Some (j, e) \<longrightarrow>
        handleMatchSelectedClick s w
          = openMatchModalForSearch w i c
              (''Matched with daily event: \"'' @ (case e of None \<Rightarrow> ''undefined'' | Some x \<Rightarrow> x) @ ''\"'')"
    using handleMatch_proceeds[of s i c t j e w] by blast
  have add: "k < length (dreamItems s) \<longrightarrow>
        currentDreamIdForMatch (addMatchButtonClick k s w) = Some (hitId (dreamItems s ! k))
        \<and> \<not> addMatchModalHidden (addMatchButtonClick k s w)
        \<and> matchedEventInput (addMatchButtonClick k s w) = hitMatched (dreamItems s ! k)"
    using addMatchButtonClick_opens[of k s w] by blast
  have hist: "\<not> list_ex search_refused acts \<longrightarrow> undisturbed initial_ui (history_events acts)"
    using history_undisturbed[of acts initial_ui] by blast
  from boxes shown onpage one hist dbox ebox refuse proceed add show ?thesis by blast
qed

text \<open>
  The claim as stated fails. After a search that rendered two dreams and one event,
  with nothing selected, the button \<open>Add Match\<close> of the first dream opens the match
  modal on it. And when the first dream and the event have been checked and a search
  with a blank term follows, which is refused, the list with its checkboxes is gone, no
  box is checked, the two selections are still recorded, and \<open>Match Selected\<close> opens
  the modal on the dream selected before.
\<close>

theorem match_without_checked_boxes_counterexample:
  "selectedDreamForMatch rendered_ui = None
   \<and> selectedEventForMatch rendered_ui = None
   \<and> addMatchModalHidden signed_in_world
   \<and> currentDreamIdForMatch (addMatchButtonClick 0 rendered_ui signed_in_world) = Some ''a1''
   \<and> \<not> addMatchModalHidden (addMatchButtonClick 0 rendered_ui signed_in_world)
   \<and> fst (performSearch signed_in_world '' '' ''allTime'' 1700000500000 1668900000000
            (Resolved []) (Resolved []))
       = EnterSearchTerm
   \<and> dreamChecked stale_ui = []
   \<and> eventChecked stale_ui = []
   \<and> checked_count (dreamChecked stale_ui) = 0
   \<and> checked_count (eventChecked stale_ui) = 0
   \<and> selectedDreamForMatch stale_ui = Some (''a1'', Some ''A river at night'', Some ''River'')
   \<and> selectedEventForMatch stale_ui = Some (''e1'', Some ''Walked along the river'')
   \<and> currentDreamIdForMatch (handleMatchSelectedClick stale_ui signed_in_world) = Some ''a1''
   \<and> \<not> addMatchModalHidden (handleMatchSelectedClick stale_ui signed_in_world)"
  by code_simp

text \<open>
  The theorem after a search that rendered two dreams and one event, with the first
  dream and the event checked: one box of each kind is checked and \<open>Match Selected\<close>
  opens the modal on the first dream; checking the second dream unchecks the first and
  makes the second the selection; unchecking the first dream clears the selection.
\<close>

theorem single_selection_and_match_witness:
  "\<not> list_ex search_refused
          [RunSearch (SearchResults [hit_a, hit_b] [hit_e]), CheckDream 0, CheckEvent 0]
   \<and> ui_run (history_events
               [RunSearch (SearchResults [hit_a, hit_b] [hit_e]), CheckDream 0, CheckEvent 0])
        = example_ui
   \<and> undisturbed initial_ui
        (history_events [RunSearch (SearchResults [hit_a, hit_b] [hit_e]), CheckDream 0, CheckEvent 0])
   \<and> handleMatchSelectedClick example_ui signed_in_world
        \<noteq> showMessage ''info'' ''Please select exactly one dream and one daily event to match.''
             signed_in_world
   \<and> checked_count (dreamChecked example_ui) = 1
   \<and> checked_count (eventChecked example_ui) = 1
   \<and> selected_dream_is_checked example_ui \<and> checked_dream_is_selected example_ui
   \<and> 1 < length (dreamChecked example_ui) \<and> 1 < length (dreamItems example_ui)
   \<and> dreamChecked example_ui = [True, False]
   \<and> selectedDreamForMatch example_ui = Some (''a1'', Some ''A river at night'', Some ''River'')
   \<and> dreamChecked (dreamBoxChange 1 example_ui) = [False, True]
   \<and> selectedDreamForMatch (dreamBoxChange 1 example_ui)
        = Some (''a2'', Some ''A river in the morning'', None)
   \<and> dreamChecked (dreamBoxChange 0 example_ui) = [False, False]
   \<and> selectedDreamForMatch (dreamBoxChange 0 example_ui) = None
   \<and> selectedEventForMatch example_ui = Some (''e1'', Some ''Walked along the river'')
   \<and> currentDreamIdForMatch (handleMatchSelectedClick example_ui signed_in_world) = Some ''a1''
   \<and> matchedEventInput (handleMatchSelectedClick example_ui signed_in_world)
        = ''Matched with daily event: \"Walked along the river\"''
   \<and> currentDreamIdForMatch (addMatchButtonClick 1 example_ui signed_in_world) = Some ''a2''"
proof -
  have a: "\<not> list_ex search_refused
               [RunSearch (SearchResults [hit_a, hit_b] [hit_e]), CheckDream 0, CheckEvent 0]"
    by simp
  have ev: "history_events [RunSearch (SearchResults [hit_a, hit_b] [hit_e]), CheckDream 0, CheckEvent 0]
              = [SearchStarted, SearchRendered [hit_a, hit_b] [hit_e], DreamBoxClicked 0,
                 EventBoxClicked 0]"
    by (simp add: history_events_def ui_events_of_def)
  have run: "ui_run [SearchStarted, SearchRendered [hit_a, hit_b] [hit_e], DreamBoxClicked 0,
                     EventBoxClicked 0]
             = example_ui"
    by (simp add: example_ui_def ui_run_def initial_ui_def)
  have p: "handleMatchSelectedClick example_ui signed_in_world
        \<noteq> showMessage ''info'' ''Please select exactly one dream and one daily event to match.''
             signed_in_world"
    by (simp add: example_ui_def ui_run_def initial_ui_def dreamBoxChange_def eventBoxChange_def
        handleMatchSelectedClick_def openMatchModalForSearch_def showMessage_def emit_def
        hit_a_def hit_b_def hit_e_def signed_in_world_def Let_def)
  have k: "1 < length (dreamChecked example_ui) \<and> 1 < length (dreamItems example_ui)
           \<and> dreamChecked example_ui = [True, False]
           \<and> dreamItems example_ui = [hit_a, hit_b]
           \<and> selectedDreamForMatch example_ui = Some (''a1'', Some ''A river at night'', Some ''River'')
           \<and> selectedEventForMatch example_ui = Some (''e1'', Some ''Walked along the river'')"
    by (simp add: example_ui_def ui_run_def initial_ui_def dreamBoxChange_def eventBoxChange_def
        hit_a_def hit_b_def hit_e_def Let_def)
  have r: "currentDreamIdForMatch (handleMatchSelectedClick example_ui signed_in_world) = Some ''a1''
           \<and> matchedEventInput (handleMatchSelectedClick example_ui signed_in_world)
                = ''Matched with daily event: \"Walked along the river\"''"
    using k by (simp add: handleMatchSelectedClick_def openMatchModalForSearch_def)
  from single_selection_and_match
    [of "[SearchStarted, SearchRendered [hit_a, hit_b] [hit_e], DreamBoxClicked 0, EventBoxClicked 0]"
        signed_in_world
        "[RunSearch (SearchResults [hit_a, hit_b] [hit_e]), CheckDream 0, CheckEvent 0]"
        1 example_ui "''a1''" "Some ''A river at night''" "Some ''River''"
        "''e1''" "Some ''Walked along the river''"]
    single_selection_and_match
    [of "[SearchStarted, SearchRendered [hit_a, hit_b] [hit_e], DreamBoxClicked 0, EventBoxClicked 0]"
        signed_in_world
        "[RunSearch (SearchResults [hit_a, hit_b] [hit_e]), CheckDream 0, CheckEvent 0]"
        0 example_ui "''a1''" "Some ''A river at night''" "Some ''River''"
        "''e1''" "Some ''Walked along the river''"]
    a p k r
  show ?thesis
    unfolding ev run
    by (simp add: hit_a_def hit_b_def)
qed

section \<open>Properties of the analysis client\<close>

lemma last_message_snoc:
  "last_message (es @ [ShowMessage ty m]) = Some (ty, m)"
  by (induction es rule: last_message.induct) auto

lemma error_shown_showMessage: "error_shown (showMessage ''error'' m w)"
  by (simp add: error_shown_def showMessage_def emit_def last_message_snoc)

text \<open>
  Claim C2, as amended. For a signed-in user \<open>performDreamAnalysis\<close> returns \<open>null\<close> and
  shows an error message on a transport failure, on a body that is not JSON, and on a
  body in which \<open>candidates\<close>, the first candidate's \<open>content\<close> or its \<open>parts\<close> are missing
  or empty. When the body has a first part with a text, it returns that text and shows
  no message (called for archiving, or with a display format checked). All of this holds
  for every HTTP status: the function does not read it.
\<close>

theorem analysis_result_ignores_status:
  "\<not> not_signed_in w \<Longrightarrow>
   (fst (performDreamAnalysis w dreamTxt dreamTtl forArchiving checkedFormat (NetworkError m)) = RetNull
    \<and> error_shown (snd (performDreamAnalysis w dreamTxt dreamTtl forArchiving checkedFormat (NetworkError m))))
   \<and> (fst (performDreamAnalysis w dreamTxt dreamTtl forArchiving checkedFormat (HttpResponse status (Inl m))) = RetNull
    \<and> error_shown (snd (performDreamAnalysis w dreamTxt dreamTtl forArchiving checkedFormat (HttpResponse status (Inl m)))))
   \<and> (r \<in> {GenResponse None, GenResponse (Some []), GenResponse (Some (Candidate None # cs)),
            GenResponse (Some (Candidate (Some (Content None)) # cs)),
            GenResponse (Some (Candidate (Some (Content (Some []))) # cs))} \<longrightarrow>
        fst (performDreamAnalysis w dreamTxt dreamTtl forArchiving checkedFormat (HttpResponse status (Inr r))) = RetNull
        \<and> error_shown (snd (performDreamAnalysis w dreamTxt dreamTtl forArchiving checkedFormat (HttpResponse status (Inr r)))))
   \<and> (forArchiving \<or> checkedFormat \<noteq> None \<longrightarrow>
        performDreamAnalysis w dreamTxt dreamTtl forArchiving checkedFormat
          (HttpResponse status
             (Inr (GenResponse (Some (Candidate (Some (Content (Some (Part (Some answer) # ps)))) # cs)))))
        = (RetString answer, emit (Fetch apiUrl) w))"
  by (auto simp: performDreamAnalysis_def first_part_def error_shown_showMessage Let_def)

text \<open>
  The claim as stated fails: a response with status 500 whose body has the candidate
  path is answered with the text and no error message; and a first part without a
  \<open>text\<close> is answered with \<open>undefined\<close>, not \<open>null\<close>, and no error message.
\<close>

theorem analysis_result_counterexample:
  "performDreamAnalysis signed_in_world ''I was flying'' ''Flight'' True None
     (HttpResponse 500
        (Inr (GenResponse (Some [Candidate (Some (Content (Some [Part (Some ''{}'')])))]))))
   = (RetString ''{}'', emit (Fetch apiUrl) signed_in_world)
   \<and> performDreamAnalysis signed_in_world ''I was flying'' ''Flight'' True None
       (HttpResponse 200 (Inr (GenResponse (Some [Candidate (Some (Content (Some [Part None])))]))))
     = (RetUndefined, emit (Fetch apiUrl) signed_in_world)
   \<and> \<not> error_shown (emit (Fetch apiUrl) signed_in_world)"
  by (simp add: performDreamAnalysis_def first_part_def signed_in_world_def not_signed_in_def
      falsy_def error_shown_def emit_def Let_def)

theorem analysis_result_ignores_status_witness:
  "\<not> not_signed_in signed_in_world
   \<and> fst (performDreamAnalysis signed_in_world ''I was flying'' ''Flight'' True None
            (HttpResponse 503 (Inr (GenResponse None)))) = RetNull
   \<and> error_shown (snd (performDreamAnalysis signed_in_world ''I was flying'' ''Flight'' True None
            (HttpResponse 503 (Inr (GenResponse None)))))
   \<and> fst (performDreamAnalysis signed_in_world ''I was flying'' ''Flight'' True None good_response)
       = RetString ''{\"location\":\"sky\"}''"
  using analysis_result_ignores_status
    [of signed_in_world "''I was flying''" "''Flight''" True None "''offline''" 503
        "GenResponse None" "[]" "''{\"location\":\"sky\"}''" "[]"]
  by (simp add: signed_in_world_def not_signed_in_def falsy_def good_response_def
      performDreamAnalysis_def first_part_def error_shown_def showMessage_def emit_def Let_def)

section \<open>Properties of the daily events list and of the search\<close>

lemma run_query_limit_exact:
  "length (run_query ts (Some n) docs) = min n (length (filter (\<lambda>x. ts (snd x) \<noteq> None) docs))"
  by (simp add: run_query_def Let_def case_prod_unfold min.commute)

lemma run_query_set:
  "set (run_query ts None docs) = {x \<in> set docs. ts (snd x) \<noteq> None}"
  by (auto simp: run_query_def Let_def)

lemma run_query_has_timestamp:
  "x \<in> set (run_query ts lim docs) \<Longrightarrow> ts (snd x) \<noteq> None"
proof -
  assume x: "x \<in> set (run_query ts lim docs)"
  have "set (run_query ts lim docs)
          \<subseteq> set (sort_key (\<lambda>(i, d). - ts_or_zero (ts d)) (filter (\<lambda>(i, d). ts d \<noteq> None) docs))"
    by (cases lim) (auto simp: run_query_def Let_def dest: in_set_takeD)
  with x have "x \<in> set (filter (\<lambda>(i, d). ts d \<noteq> None) docs)" by auto
  then show ?thesis by (auto simp: case_prod_unfold)
qed

lemma run_query_filter_length:
  "length (filter P (run_query ts None docs))
     = length (filter (\<lambda>x. ts (snd x) \<noteq> None \<and> P x) docs)"
proof -
  have "filter P (run_query ts None docs)
          = sort_key (\<lambda>(i, d). - ts_or_zero (ts d)) (filter P (filter (\<lambda>(i, d). ts d \<noteq> None) docs))"
    by (simp add: run_query_def Let_def filter_sort)
  then have "length (filter P (run_query ts None docs))
          = length (filter P (filter (\<lambda>(i, d). ts d \<noteq> None) docs))"
    by (simp only: length_sort)
  also have "filter P (filter (\<lambda>(i, d). ts d \<noteq> None) docs)
          = filter (\<lambda>x. ts (snd x) \<noteq> None \<and> P x) docs"
    by (simp add: case_prod_unfold)
  finally show ?thesis .
qed

lemma run_query_sorted:
  "sorted_wrt (\<lambda>x y. ts_or_zero (ts (snd y)) \<le> ts_or_zero (ts (snd x))) (run_query ts lim docs)"
proof -
  let ?f = "\<lambda>(i, d). - ts_or_zero (ts d)"
  let ?xs = "sort_key ?f (filter (\<lambda>(i, d). ts d \<noteq> None) docs)"
  have "sorted (map ?f ?xs)" by (rule sorted_sort_key)
  then have s: "sorted_wrt (\<lambda>x y. ts_or_zero (ts (snd y)) \<le> ts_or_zero (ts (snd x))) ?xs"
    by (simp add: sorted_map case_prod_unfold)
  show ?thesis
  proof (cases lim)
    case None
    with s show ?thesis by (simp add: run_query_def Let_def)
  next
    case (Some n)
    with sorted_wrt_take[OF s, of n] show ?thesis by (simp add: run_query_def Let_def)
  qed
qed

lemma run_query_most_recent:
  "\<exists>older. set (run_query ts (Some n) docs) \<union> set older = {x \<in> set docs. ts (snd x) \<noteq> None}
     \<and> length (run_query ts (Some n) docs) + length older
         = length (filter (\<lambda>x. ts (snd x) \<noteq> None) docs)
     \<and> (\<forall>x \<in> set (run_query ts (Some n) docs). \<forall>y \<in> set older.
           ts_or_zero (ts (snd y)) \<le> ts_or_zero (ts (snd x)))"
proof -
  let ?f = "\<lambda>(i, d). - ts_or_zero (ts d)"
  let ?flt = "filter (\<lambda>(i, d). ts d \<noteq> None) docs"
  let ?xs = "sort_key ?f ?flt"
  have flt: "?flt = filter (\<lambda>x. ts (snd x) \<noteq> None) docs"
    by (simp add: case_prod_unfold)
  have "sorted (map ?f (take n ?xs @ drop n ?xs))"
    by (simp only: append_take_drop_id sorted_sort_key)
  then have "\<forall>a \<in> set (map ?f (take n ?xs)). \<forall>b \<in> set (map ?f (drop n ?xs)). a \<le> b"
    unfolding map_append sorted_append by blast
  then have ord: "\<forall>x \<in> set (take n ?xs). \<forall>y \<in> set (drop n ?xs). ?f x \<le> ?f y"
    unfolding set_map by blast
  have "set (take n ?xs) \<union> set (drop n ?xs) = set ?xs"
    by (metis append_take_drop_id set_append)
  then have st: "set (take n ?xs) \<union> set (drop n ?xs) = {x \<in> set docs. ts (snd x) \<noteq> None}"
    by (auto simp: case_prod_unfold)
  have "length (take n ?xs) + length (drop n ?xs) = length ?xs"
    by (metis append_take_drop_id length_append)
  then have ln: "length (take n ?xs) + length (drop n ?xs) = length (filter (\<lambda>x. ts (snd x) \<noteq> None) docs)"
    by (simp only: length_sort flt)
  have rq: "run_query ts (Some n) docs = take n ?xs"
    by (simp add: run_query_def Let_def)
  show ?thesis
    unfolding rq
    by (rule exI[of _ "drop n ?xs"]) (use st ln ord in \<open>auto simp: case_prod_unfold\<close>)
qed

lemma js_insert_insort_key:
  fixes f :: "'a \<Rightarrow> int"
  shows "js_insert (\<lambda>a b. f b - f a) x ys = insort_key (\<lambda>h. - f h) x ys"
  by (induction ys) auto

lemma js_sort_sort_key:
  fixes f :: "'a \<Rightarrow> int"
  shows "js_sort (\<lambda>a b. f b - f a) xs = sort_key (\<lambda>h. - f h) xs"
  by (induction xs) (simp_all add: js_sort_def js_insert_insort_key)

lemma sort_key_desc_sorted:
  fixes f :: "'a \<Rightarrow> int"
  shows "sorted_wrt (\<lambda>a b. f b \<le> f a) (sort_key (\<lambda>h. - f h) xs)"
proof -
  have "sorted (map (\<lambda>h. - f h) (sort_key (\<lambda>h. - f h) xs))" by (rule sorted_sort_key)
  then show ?thesis by (simp add: sorted_map)
qed

lemma includes_str_Nil: "t \<noteq> [] \<Longrightarrow> \<not> includes_str [] t"
  by simp

lemma event_match_has_text:
  "T \<noteq> [] \<Longrightarrow> event_matches T start e \<Longrightarrow> eventText e \<noteq> None"
  by (cases "eventText e") (auto simp: event_matches_def lower_or_empty_def)

lemma displaySearchResults_ok:
  "\<forall>h \<in> set ds. hitContent h \<noteq> None \<Longrightarrow> \<forall>h \<in> set es. evContent h \<noteq> None \<Longrightarrow>
   displaySearchResults ds es
     = Inr (sort_key (\<lambda>h. - ts_or_zero (hitTimestamp h)) ds,
            sort_key (\<lambda>h. - ts_or_zero (evTimestamp h)) es)"
  by (simp add: displaySearchResults_def js_sort_sort_key Let_def list_ex_iff)

lemma startDate_days:
  "startDate now yearAgo ''last30Days'' = now - 2592000000"
  "startDate now yearAgo ''last7Days'' = now - 604800000"
  "startDate now yearAgo ''lastYear'' = yearAgo"
  "startDate now yearAgo ''allTime'' = 0"
  by (simp_all add: startDate_def)

lemma performSearch_resolved:
  assumes auth: "\<not> not_signed_in w"
    and tdef: "toLowerCase (trim inputValue) = T"
    and nonempty: "T \<noteq> []"
    and texts: "\<forall>x \<in> set dreamSnapshot. dreamText (snd x) \<noteq> None"
  shows "fst (performSearch w inputValue scope now yearAgo (Resolved dreamSnapshot) (Resolved eventSnapshot))
      = SearchResults
          (sort_key (\<lambda>h. - ts_or_zero (hitTimestamp h))
             (dreamResults T (startDate now yearAgo scope) dreamSnapshot))
          (sort_key (\<lambda>h. - ts_or_zero (evTimestamp h))
             (eventResults T (startDate now yearAgo scope) eventSnapshot))"
proof -
  let ?start = "startDate now yearAgo scope"
  let ?D = "dreamResults T ?start dreamSnapshot"
  let ?E = "eventResults T ?start eventSnapshot"
  have dc: "\<forall>h \<in> set ?D. hitContent h \<noteq> None"
    using texts by (auto simp: dreamResults_def dream_hit_of_def)
  have ec: "\<forall>h \<in> set ?E. evContent h \<noteq> None"
    using event_match_has_text[OF nonempty] by (auto simp: eventResults_def event_hit_of_def)
  show ?thesis
    using auth nonempty by (simp add: performSearch_def tdef Let_def displaySearchResults_ok[OF dc ec])
qed

lemma performSearch_hits_from_snapshots:
  assumes "fst (performSearch w inputValue scope now yearAgo (Resolved dreamSnapshot) (Resolved eventSnapshot))
             = SearchResults ds es"
  shows "set ds \<subseteq> dream_hit_of ` set dreamSnapshot \<and> set es \<subseteq> event_hit_of ` set eventSnapshot"
proof -
  let ?T = "toLowerCase (trim inputValue)"
  let ?start = "startDate now yearAgo scope"
  from assms have
    "displaySearchResults (dreamResults ?T ?start dreamSnapshot) (eventResults ?T ?start eventSnapshot)
       = Inr (ds, es)"
    by (auto simp: performSearch_def Let_def split: if_splits sum.splits prod.splits)
  then have "ds = sort_key (\<lambda>h. - ts_or_zero (hitTimestamp h)) (dreamResults ?T ?start dreamSnapshot)
             \<and> es = sort_key (\<lambda>h. - ts_or_zero (evTimestamp h)) (eventResults ?T ?start eventSnapshot)"
    by (auto simp: displaySearchResults_def js_sort_sort_key Let_def split: if_splits)
  then show ?thesis
    by (auto simp: dreamResults_def eventResults_def)
qed

lemma searchStore_hits_timed:
  assumes "fst (searchStore w inputValue scope now yearAgo) = SearchResults ds es"
  shows "(\<forall>h \<in> set ds. hitTimestamp h \<noteq> None) \<and> (\<forall>h \<in> set es. evTimestamp h \<noteq> None)"
proof -
  from performSearch_hits_from_snapshots[OF assms[unfolded searchStore_def]]
  have sub: "set ds \<subseteq> dream_hit_of ` set (run_query timestamp None (archived_dreams w (user_seg (userId w))))"
    "set es \<subseteq> event_hit_of ` set (run_query eventTimestamp None (daily_events w (user_seg (userId w))))"
    by simp_all
  have "\<forall>h \<in> set ds. hitTimestamp h \<noteq> None"
  proof
    fix h assume "h \<in> set ds"
    with sub(1) obtain x where x: "x \<in> set (run_query timestamp None (archived_dreams w (user_seg (userId w))))"
      and h: "h = dream_hit_of x" by blast
    from run_query_has_timestamp[OF x] h show "hitTimestamp h \<noteq> None"
      by (simp add: dream_hit_of_def)
  qed
  moreover have "\<forall>h \<in> set es. evTimestamp h \<noteq> None"
  proof
    fix h assume "h \<in> set es"
    with sub(2) obtain x where x: "x \<in> set (run_query eventTimestamp None (daily_events w (user_seg (userId w))))"
      and h: "h = event_hit_of x" by blast
    from run_query_has_timestamp[OF x] h show "evTimestamp h \<noteq> None"
      by (simp add: event_hit_of_def)
  qed
  ultimately show ?thesis by blast
qed

lemma searchStore_events:
  assumes auth: "\<not> not_signed_in w"
    and tdef: "toLowerCase (trim inputValue) = T"
    and nonempty: "T \<noteq> []"
    and texts: "\<forall>x \<in> set (archived_dreams w (user_seg (userId w))). dreamText (snd x) \<noteq> None"
  shows "\<exists>ds es.
      fst (searchStore w inputValue scope now yearAgo) = SearchResults ds es
      \<and> sorted_wrt (\<lambda>a b. ts_or_zero (evTimestamp b) \<le> ts_or_zero (evTimestamp a)) es
      \<and> set es = (\<lambda>x. \<lparr>evId = fst x, evContent = eventText (snd x), evTimestamp = eventTimestamp (snd x)\<rparr>) `
            {x \<in> set (daily_events w (user_seg (userId w))).
               eventTimestamp (snd x) \<noteq> None
               \<and> includes_str (lower_or_empty (eventText (snd x))) T
               \<and> startDate now yearAgo scope \<le> ts_or_zero (eventTimestamp (snd x))}
      \<and> length es
          = length (filter (\<lambda>x. eventTimestamp (snd x) \<noteq> None
                               \<and> includes_str (lower_or_empty (eventText (snd x))) T
                               \<and> startDate now yearAgo scope \<le> ts_or_zero (eventTimestamp (snd x)))
                      (daily_events w (user_seg (userId w))))"
proof -
  let ?u = "user_seg (userId w)"
  let ?start = "startDate now yearAgo scope"
  let ?dsnap = "run_query timestamp None (archived_dreams w ?u)"
  let ?esnap = "run_query eventTimestamp None (daily_events w ?u)"
  let ?ds = "sort_key (\<lambda>h. - ts_or_zero (hitTimestamp h)) (dreamResults T ?start ?dsnap)"
  let ?es = "sort_key (\<lambda>h. - ts_or_zero (evTimestamp h)) (eventResults T ?start ?esnap)"
  have t2: "\<forall>x \<in> set ?dsnap. dreamText (snd x) \<noteq> None"
    using texts by (simp add: run_query_set)
  have run: "fst (searchStore w inputValue scope now yearAgo) = SearchResults ?ds ?es"
    unfolding searchStore_def by (rule performSearch_resolved[OF auth tdef nonempty t2])
  have srt: "sorted_wrt (\<lambda>a b. ts_or_zero (evTimestamp b) \<le> ts_or_zero (evTimestamp a)) ?es"
    by (rule sort_key_desc_sorted)
  have st: "set ?es = (\<lambda>x. \<lparr>evId = fst x, evContent = eventText (snd x), evTimestamp = eventTimestamp (snd x)\<rparr>) `
            {x \<in> set (daily_events w ?u).
               eventTimestamp (snd x) \<noteq> None
               \<and> includes_str (lower_or_empty (eventText (snd x))) T
               \<and> ?start \<le> ts_or_zero (eventTimestamp (snd x))}"
    by (auto simp: eventResults_def event_matches_def event_hit_of_def run_query_set)
  have "length ?es = length (filter (\<lambda>x. event_matches T ?start (snd x)) ?esnap)"
    by (simp add: eventResults_def)
  also have "\<dots> = length (filter (\<lambda>x. eventTimestamp (snd x) \<noteq> None \<and> event_matches T ?start (snd x))
                       (daily_events w ?u))"
    by (rule run_query_filter_length)
  finally have ln: "length ?es
          = length (filter (\<lambda>x. eventTimestamp (snd x) \<noteq> None
                               \<and> includes_str (lower_or_empty (eventText (snd x))) T
                               \<and> ?start \<le> ts_or_zero (eventTimestamp (snd x)))
                      (daily_events w ?u))"
    by (simp add: event_matches_def)
  from run srt st ln show ?thesis by blast
qed

text \<open>
  Claim C7, as amended. For a signed-in user the daily events list (\<open>loadDailyEvents\<close>)
  retrieves the 10 most recent of the events that have a timestamp, all of them when
  there are fewer, ordered by descending timestamp: every event with a timestamp is
  among them or among older ones. The retrieval of daily events by the search
  (\<open>performSearch\<close>, run against the store) orders by descending timestamp and sets no
  limit, so it reaches every event that has a timestamp: for a non-empty term and
  archived dreams that all have a text, the events returned are exactly the events with
  a timestamp that contain the term and lie in the selected scope, however many,
  ordered by descending timestamp.
\<close>

theorem daily_events_list_capped:
  "\<not> not_signed_in w \<Longrightarrow>
   (\<exists>snap older.
      fst (loadDailyEvents w) = Some snap
      \<and> length snap
          = min 10 (length (filter (\<lambda>x. eventTimestamp (snd x) \<noteq> None)
                              (daily_events w (user_seg (userId w)))))
      \<and> sorted_wrt (\<lambda>x y. ts_or_zero (eventTimestamp (snd y)) \<le> ts_or_zero (eventTimestamp (snd x))) snap
      \<and> set snap \<union> set older
          = {x \<in> set (daily_events w (user_seg (userId w))). eventTimestamp (snd x) \<noteq> None}
      \<and> length snap + length older
          = length (filter (\<lambda>x. eventTimestamp (snd x) \<noteq> None) (daily_events w (user_seg (userId w))))
      \<and> (\<forall>x \<in> set snap. \<forall>y \<in> set older.
            ts_or_zero (eventTimestamp (snd y)) \<le> ts_or_zero (eventTimestamp (snd x))))
   \<and> (toLowerCase (trim inputValue) \<noteq> []
       \<and> (\<forall>x \<in> set (archived_dreams w (user_seg (userId w))). dreamText (snd x) \<noteq> None) \<longrightarrow>
       (\<exists>ds es.
          fst (searchStore w inputValue scope now yearAgo) = SearchResults ds es
          \<and> sorted_wrt (\<lambda>a b. ts_or_zero (evTimestamp b) \<le> ts_or_zero (evTimestamp a)) es
          \<and> set es
              = (\<lambda>x. \<lparr>evId = fst x, evContent = eventText (snd x),
                       evTimestamp = eventTimestamp (snd x)\<rparr>) `
                {x \<in> set (daily_events w (user_seg (userId w))).
                   eventTimestamp (snd x) \<noteq> None
                   \<and> includes_str (lower_or_empty (eventText (snd x))) (toLowerCase (trim inputValue))
                   \<and> startDate now yearAgo scope \<le> ts_or_zero (eventTimestamp (snd x))}
          \<and> length es
              = length (filter (\<lambda>x. eventTimestamp (snd x) \<noteq> None
                                    \<and> includes_str (lower_or_empty (eventText (snd x)))
                                         (toLowerCase (trim inputValue))
                                    \<and> startDate now yearAgo scope \<le> ts_or_zero (eventTimestamp (snd x)))
                          (daily_events w (user_seg (userId w))))))"
proof -
  assume auth: "\<not> not_signed_in w"
  let ?docs = "daily_events w (user_seg (userId w))"
  let ?snap = "run_query eventTimestamp (Some 10) ?docs"
  have ld: "fst (loadDailyEvents w) = Some ?snap"
    using auth by (simp add: loadDailyEvents_def Let_def)
  from run_query_most_recent[of eventTimestamp 10 ?docs] obtain older where
    older: "set ?snap \<union> set older = {x \<in> set ?docs. eventTimestamp (snd x) \<noteq> None}"
      "length ?snap + length older = length (filter (\<lambda>x. eventTimestamp (snd x) \<noteq> None) ?docs)"
      "\<forall>x \<in> set ?snap. \<forall>y \<in> set older.
          ts_or_zero (eventTimestamp (snd y)) \<le> ts_or_zero (eventTimestamp (snd x))"
    by blast
  have list: "\<exists>snap older.
      fst (loadDailyEvents w) = Some snap
      \<and> length snap = min 10 (length (filter (\<lambda>x. eventTimestamp (snd x) \<noteq> None) ?docs))
      \<and> sorted_wrt (\<lambda>x y. ts_or_zero (eventTimestamp (snd y)) \<le> ts_or_zero (eventTimestamp (snd x))) snap
      \<and> set snap \<union> set older = {x \<in> set ?docs. eventTimestamp (snd x) \<noteq> None}
      \<and> length snap + length older = length (filter (\<lambda>x. eventTimestamp (snd x) \<noteq> None) ?docs)
      \<and> (\<forall>x \<in> set snap. \<forall>y \<in> set older.
            ts_or_zero (eventTimestamp (snd y)) \<le> ts_or_zero (eventTimestamp (snd x)))"
    using ld run_query_limit_exact[of eventTimestamp 10 ?docs]
      run_query_sorted[of eventTimestamp "Some 10" ?docs] older
    by blast
  have search: "toLowerCase (trim inputValue) \<noteq> []
       \<and> (\<forall>x \<in> set (archived_dreams w (user_seg (userId w))). dreamText (snd x) \<noteq> None) \<longrightarrow>
       (\<exists>ds es.
          fst (searchStore w inputValue scope now yearAgo) = SearchResults ds es
          \<and> sorted_wrt (\<lambda>a b. ts_or_zero (evTimestamp b) \<le> ts_or_zero (evTimestamp a)) es
          \<and> set es
              = (\<lambda>x. \<lparr>evId = fst x, evContent = eventText (snd x),
                       evTimestamp = eventTimestamp (snd x)\<rparr>) `
                {x \<in> set ?docs.
                   eventTimestamp (snd x) \<noteq> None
                   \<and> includes_str (lower_or_empty (eventText (snd x))) (toLowerCase (trim inputValue))
                   \<and> startDate now yearAgo scope \<le> ts_or_zero (eventTimestamp (snd x))}
          \<and> length es
              = length (filter (\<lambda>x. eventTimestamp (snd x) \<noteq> None
                                    \<and> includes_str (lower_or_empty (eventText (snd x)))
                                         (toLowerCase (trim inputValue))
                                    \<and> startDate now yearAgo scope \<le> ts_or_zero (eventTimestamp (snd x)))
                          ?docs))"
    using searchStore_events[OF auth refl, of inputValue scope now yearAgo] by blast
  from list search show ?thesis by (rule conjI)
qed

text \<open>
  The claim as stated fails for the retrieval in \<open>performSearch\<close>: with eleven logged
  events that contain the search term, the search returns all eleven.
\<close>

theorem search_reads_all_events_counterexample:
  "fst (searchStore eleven_world ''walk'' ''allTime'' 1700000500000 1668900000000)
     = SearchResults [] (map event_hit_of (rev eleven_events))
   \<and> length (map event_hit_of (rev eleven_events)) = 11"
  by code_simp

text \<open>
  The theorem on the same store: of the eleven events the list shows the ten most
  recent, and the search for their common term returns eleven.
\<close>

theorem daily_events_list_capped_witness:
  "\<not> not_signed_in eleven_world
   \<and> toLowerCase (trim ''walk'') \<noteq> []
   \<and> map (\<lambda>x. dreamText (snd x)) (archived_dreams eleven_world (user_seg (userId eleven_world)))
        = [Some ''A river at night'']
   \<and> fst (loadDailyEvents eleven_world) = Some (rev (tl eleven_events))
   \<and> length (rev (tl eleven_events)) = 10
   \<and> length (filter (\<lambda>x. eventTimestamp (snd x) \<noteq> None)
               (daily_events eleven_world (user_seg (userId eleven_world)))) = 11
   \<and> (\<exists>ds es. fst (searchStore eleven_world ''walk'' ''allTime'' 1700000500000 1668900000000)
                 = SearchResults ds es
               \<and> length es = 11)"
proof -
  have h1: "\<not> not_signed_in eleven_world" by code_simp
  have h2: "toLowerCase (trim ''walk'') \<noteq> []
            \<and> (\<forall>x \<in> set (archived_dreams eleven_world (user_seg (userId eleven_world))).
                  dreamText (snd x) \<noteq> None)"
    by code_simp
  have r: "fst (loadDailyEvents eleven_world) = Some (rev (tl eleven_events))
           \<and> length (rev (tl eleven_events)) = 10
           \<and> length (filter (\<lambda>x. eventTimestamp (snd x) \<noteq> None)
                       (daily_events eleven_world (user_seg (userId eleven_world)))) = 11"
    by code_simp
  have n: "length (filter (\<lambda>x. eventTimestamp (snd x) \<noteq> None
                              \<and> includes_str (lower_or_empty (eventText (snd x)))
                                   (toLowerCase (trim ''walk''))
                              \<and> startDate 1700000500000 1668900000000 ''allTime''
                                   \<le> ts_or_zero (eventTimestamp (snd x)))
                     (daily_events eleven_world (user_seg (userId eleven_world)))) = 11"
    by code_simp
  note t = daily_events_list_capped
             [OF h1, of "''walk''" "''allTime''" 1700000500000 1668900000000]
  from mp[OF conjunct2[OF t] h2] obtain ds es where
    a: "fst (searchStore eleven_world ''walk'' ''allTime'' 1700000500000 1668900000000) = SearchResults ds es"
    and b: "length es
           = length (filter (\<lambda>x. eventTimestamp (snd x) \<noteq> None
                                 \<and> includes_str (lower_or_empty (eventText (snd x)))
                                      (toLowerCase (trim ''walk''))
                                 \<and> startDate 1700000500000 1668900000000 ''allTime''
                                      \<le> ts_or_zero (eventTimestamp (snd x)))
                       (daily_events eleven_world (user_seg (userId eleven_world))))"
    by (elim exE conjE) (rule that)
  from b n have c: "length es = 11" by (rule trans)
  from a c have s: "\<exists>ds es. fst (searchStore eleven_world ''walk'' ''allTime'' 1700000500000 1668900000000)
                 = SearchResults ds es \<and> length es = 11"
    by (intro exI conjI)
  have t: "map (\<lambda>x. dreamText (snd x)) (archived_dreams eleven_world (user_seg (userId eleven_world)))
             = [Some ''A river at night'']"
    by code_simp
  from h1 h2 t r s show ?thesis by (intro conjI) (elim conjE, assumption)+
qed

text \<open>
  Claim C3, as amended. Let \<open>T\<close> be the value of the search box, trimmed and lower-cased,
  and let it be non-empty; let the user be signed in, both reads resolve and every
  archived dream have a \<open>dreamText\<close>. Then the search returns exactly the archived dreams
  whose lower-cased text or title contains \<open>T\<close> and the daily events whose lower-cased
  text contains \<open>T\<close>, with a timestamp (0 when missing) not before the start of the
  selected scope, each list sorted by descending timestamp (a stable sort of the
  snapshot). A matching dream dated 40 days ago is left out under \<open>last30Days\<close> and
  returned under \<open>allTime\<close>.
\<close>

theorem search_returns_matching_sorted:
  "\<not> not_signed_in w \<Longrightarrow> toLowerCase (trim inputValue) = T \<Longrightarrow> T \<noteq> [] \<Longrightarrow>
   \<forall>x \<in> set dreamSnapshot. dreamText (snd x) \<noteq> None \<Longrightarrow>
   (\<exists>ds es.
      fst (performSearch w inputValue scope now yearAgo (Resolved dreamSnapshot) (Resolved eventSnapshot))
        = SearchResults ds es
      \<and> ds = sort_key (\<lambda>h. - ts_or_zero (hitTimestamp h))
               (map dream_hit_of
                  (filter (\<lambda>x. (includes_str (lower_or_empty (dreamText (snd x))) T
                                 \<or> includes_str (lower_or_empty (dreamTitle (snd x))) T)
                                \<and> startDate now yearAgo scope \<le> ts_or_zero (timestamp (snd x)))
                     dreamSnapshot))
      \<and> es = sort_key (\<lambda>h. - ts_or_zero (evTimestamp h))
               (map event_hit_of
                  (filter (\<lambda>x. includes_str (lower_or_empty (eventText (snd x))) T
                                \<and> startDate now yearAgo scope \<le> ts_or_zero (eventTimestamp (snd x)))
                     eventSnapshot))
      \<and> set ds = dream_hit_of `
            {x \<in> set dreamSnapshot.
               (includes_str (lower_or_empty (dreamText (snd x))) T
                \<or> includes_str (lower_or_empty (dreamTitle (snd x))) T)
               \<and> startDate now yearAgo scope \<le> ts_or_zero (timestamp (snd x))}
      \<and> set es = event_hit_of `
            {x \<in> set eventSnapshot.
               includes_str (lower_or_empty (eventText (snd x))) T
               \<and> startDate now yearAgo scope \<le> ts_or_zero (eventTimestamp (snd x))}
      \<and> sorted_wrt (\<lambda>a b. ts_or_zero (hitTimestamp b) \<le> ts_or_zero (hitTimestamp a)) ds
      \<and> sorted_wrt (\<lambda>a b. ts_or_zero (evTimestamp b) \<le> ts_or_zero (evTimestamp a)) es)
   \<and> (timestamp d = Some (now - 40 * 24 * 60 * 60 * 1000) \<and> 40 * 24 * 60 * 60 * 1000 \<le> now
       \<and> includes_str (lower_or_empty (dreamText d)) T \<longrightarrow>
        dreamResults T (startDate now yearAgo ''last30Days'') [(i, d)] = []
        \<and> dreamResults T (startDate now yearAgo ''allTime'') [(i, d)] = [dream_hit_of (i, d)])"
proof -
  assume auth: "\<not> not_signed_in w"
  assume tdef: "toLowerCase (trim inputValue) = T"
  assume nonempty: "T \<noteq> []"
  assume texts: "\<forall>x \<in> set dreamSnapshot. dreamText (snd x) \<noteq> None"
  let ?start = "startDate now yearAgo scope"
  let ?D = "dreamResults T ?start dreamSnapshot"
  let ?E = "eventResults T ?start eventSnapshot"
  have dc: "\<forall>h \<in> set ?D. hitContent h \<noteq> None"
    using texts by (auto simp: dreamResults_def dream_hit_of_def)
  have ec: "\<forall>h \<in> set ?E. evContent h \<noteq> None"
    using event_match_has_text[OF nonempty] by (auto simp: eventResults_def event_hit_of_def)
  have run: "fst (performSearch w inputValue scope now yearAgo (Resolved dreamSnapshot) (Resolved eventSnapshot))
      = SearchResults (sort_key (\<lambda>h. - ts_or_zero (hitTimestamp h)) ?D)
          (sort_key (\<lambda>h. - ts_or_zero (evTimestamp h)) ?E)"
    using auth nonempty by (simp add: performSearch_def tdef Let_def displaySearchResults_ok[OF dc ec])
  have D: "?D = map dream_hit_of
                  (filter (\<lambda>x. (includes_str (lower_or_empty (dreamText (snd x))) T
                                 \<or> includes_str (lower_or_empty (dreamTitle (snd x))) T)
                                \<and> ?start \<le> ts_or_zero (timestamp (snd x)))
                     dreamSnapshot)"
    by (simp add: dreamResults_def dream_matches_def)
  have E: "?E = map event_hit_of
                  (filter (\<lambda>x. includes_str (lower_or_empty (eventText (snd x))) T
                                \<and> ?start \<le> ts_or_zero (eventTimestamp (snd x)))
                     eventSnapshot)"
    by (simp add: eventResults_def event_matches_def)
  have first: "\<exists>ds es.
      fst (performSearch w inputValue scope now yearAgo (Resolved dreamSnapshot) (Resolved eventSnapshot))
        = SearchResults ds es
      \<and> ds = sort_key (\<lambda>h. - ts_or_zero (hitTimestamp h))
               (map dream_hit_of
                  (filter (\<lambda>x. (includes_str (lower_or_empty (dreamText (snd x))) T
                                 \<or> includes_str (lower_or_empty (dreamTitle (snd x))) T)
                                \<and> ?start \<le> ts_or_zero (timestamp (snd x)))
                     dreamSnapshot))
      \<and> es = sort_key (\<lambda>h. - ts_or_zero (evTimestamp h))
               (map event_hit_of
                  (filter (\<lambda>x. includes_str (lower_or_empty (eventText (snd x))) T
                                \<and> ?start \<le> ts_or_zero (eventTimestamp (snd x)))
                     eventSnapshot))
      \<and> set ds = dream_hit_of `
            {x \<in> set dreamSnapshot.
               (includes_str (lower_or_empty (dreamText (snd x))) T
                \<or> includes_str (lower_or_empty (dreamTitle (snd x))) T)
               \<and> ?start \<le> ts_or_zero (timestamp (snd x))}
      \<and> set es = event_hit_of `
            {x \<in> set eventSnapshot.
               includes_str (lower_or_empty (eventText (snd x))) T
               \<and> ?start \<le> ts_or_zero (eventTimestamp (snd x))}
      \<and> sorted_wrt (\<lambda>a b. ts_or_zero (hitTimestamp b) \<le> ts_or_zero (hitTimestamp a)) ds
      \<and> sorted_wrt (\<lambda>a b. ts_or_zero (evTimestamp b) \<le> ts_or_zero (evTimestamp a)) es"
    apply (rule exI[of _ "sort_key (\<lambda>h. - ts_or_zero (hitTimestamp h)) ?D"])
    apply (rule exI[of _ "sort_key (\<lambda>h. - ts_or_zero (evTimestamp h)) ?E"])
    apply (intro conjI)
          apply (rule run)
         apply (simp only: D)
        apply (simp only: E)
       apply (simp add: D)
      apply (simp add: E)
     apply (rule sort_key_desc_sorted)
    apply (rule sort_key_desc_sorted)
    done
  have second: "timestamp d = Some (now - 40 * 24 * 60 * 60 * 1000) \<and> 40 * 24 * 60 * 60 * 1000 \<le> now
       \<and> includes_str (lower_or_empty (dreamText d)) T \<longrightarrow>
        dreamResults T (startDate now yearAgo ''last30Days'') [(i, d)] = []
        \<and> dreamResults T (startDate now yearAgo ''allTime'') [(i, d)] = [dream_hit_of (i, d)]"
    by (simp add: dreamResults_def dream_matches_def startDate_days ts_or_zero_def)
  from first second show ?thesis by (rule conjI)
qed

text \<open>
  The claim as stated fails: the search box value \<open>cat\<close> followed by a blank returns the
  dream whose text is \<open>cat\<close>, although neither its text nor its title contains the value
  typed; a dream without \<open>dreamText\<close> whose title contains the term is not returned:
  rendering it throws and the search ends with an error; and the empty term, which every
  text contains, returns nothing but the request to enter a term.
\<close>

theorem search_term_counterexample:
  "fst (performSearch signed_in_world ''cat '' ''allTime'' 1700000500000 1668900000000
          (Resolved [(''c1'', cat_dream)]) (Resolved []))
     = SearchResults [dream_hit_of (''c1'', cat_dream)] []
   \<and> \<not> includes_str (toLowerCase ''cat'') (toLowerCase ''cat '')
   \<and> \<not> includes_str (toLowerCase ''Pet'') (toLowerCase ''cat '')
   \<and> fst (performSearch signed_in_world ''pet'' ''allTime'' 1700000500000 1668900000000
            (Resolved [(''c2'', untitled_text_dream)]) (Resolved []))
       = ErrorPerformingSearch
   \<and> fst (performSearch signed_in_world [] ''allTime'' 1700000500000 1668900000000
            (Resolved [(''c1'', cat_dream)]) (Resolved []))
       = EnterSearchTerm
   \<and> includes_str (toLowerCase ''cat'') (toLowerCase [])"
  by code_simp

theorem search_returns_matching_sorted_witness:
  "\<not> not_signed_in signed_in_world
   \<and> toLowerCase (trim '' River '') = ''river''
   \<and> fst (performSearch signed_in_world '' River '' ''last30Days'' 1700000500000 1668900000000
            (Resolved [(''a1'', river_dream)]) (Resolved []))
       = SearchResults [dream_hit_of (''a1'', river_dream)] []"
proof -
  have h1: "\<not> not_signed_in signed_in_world" by code_simp
  have h2: "toLowerCase (trim '' River '') = ''river''" by code_simp
  have h3: "''river'' \<noteq> []" by simp
  have h4: "\<forall>x \<in> set [(''a1'', river_dream)]. dreamText (snd x) \<noteq> None"
    by (simp add: river_dream_def)
  have r: "fst (performSearch signed_in_world '' River '' ''last30Days'' 1700000500000 1668900000000
            (Resolved [(''a1'', river_dream)]) (Resolved []))
       = SearchResults [dream_hit_of (''a1'', river_dream)] []"
    by code_simp
  from search_returns_matching_sorted[OF h1 h2 h3 h4] h1 h2 r show ?thesis by blast
qed

lemma bounded_scope_positive:
  "30 * 24 * 60 * 60 * 1000 < now \<Longrightarrow> 0 < yearAgo \<Longrightarrow>
   scope \<in> {''last7Days'', ''last30Days'', ''lastYear''} \<Longrightarrow> 0 < startDate now yearAgo scope"
  by (auto simp: startDate_days)

text \<open>
  Claim C10, as amended. In the filter that \<open>performSearch\<close> applies to the documents
  its two queries deliver, a missing timestamp counts as 0, the epoch. Let the user be
  signed in, the trimmed, lower-cased term \<open>T\<close> be non-empty, both reads resolve and
  every delivered dream have a \<open>dreamText\<close>; let the clock be later than 30 days after
  the epoch and the start of the last year be after the epoch. Then under each of the
  scopes \<open>last7Days\<close>, \<open>last30Days\<close> and \<open>lastYear\<close> no dream or event without timestamp is
  returned, and under \<open>allTime\<close>, whose start is the epoch, every delivered dream without
  timestamp whose lower-cased text or title contains \<open>T\<close>, and every delivered event
  without timestamp whose lower-cased text contains \<open>T\<close>, is returned. The queries
  order by timestamp and deliver no document that lacks the field: run against the
  store, the search returns a document without timestamp under no scope.
\<close>

theorem missing_timestamp_is_epoch:
  "\<not> not_signed_in w \<Longrightarrow> toLowerCase (trim inputValue) = T \<Longrightarrow> T \<noteq> [] \<Longrightarrow>
   \<forall>x \<in> set dreamSnapshot. dreamText (snd x) \<noteq> None \<Longrightarrow>
   30 * 24 * 60 * 60 * 1000 < now \<Longrightarrow> 0 < yearAgo \<Longrightarrow>
   (\<exists>ds es.
      fst (performSearch w inputValue scope now yearAgo (Resolved dreamSnapshot) (Resolved eventSnapshot))
        = SearchResults ds es
      \<and> (scope \<in> {''last7Days'', ''last30Days'', ''lastYear''} \<longrightarrow>
           (\<forall>h \<in> set ds. hitTimestamp h \<noteq> None) \<and> (\<forall>h \<in> set es. evTimestamp h \<noteq> None))
      \<and> (scope = ''allTime'' \<longrightarrow>
           (\<forall>x \<in> set dreamSnapshot.
              timestamp (snd x) = None
              \<and> (includes_str (lower_or_empty (dreamText (snd x))) T
                  \<or> includes_str (lower_or_empty (dreamTitle (snd x))) T) \<longrightarrow>
              \<lparr>hitId = fst x, hitContent = dreamText (snd x), hitTitle = dreamTitle (snd x),
               hitTimestamp = None,
               hitMatched = (case matchedRealityEvent (snd x) of None \<Rightarrow> [] | Some m \<Rightarrow> m)\<rparr>
                \<in> set ds)
           \<and> (\<forall>x \<in> set eventSnapshot.
                eventTimestamp (snd x) = None
                \<and> includes_str (lower_or_empty (eventText (snd x))) T \<longrightarrow>
                \<lparr>evId = fst x, evContent = eventText (snd x), evTimestamp = None\<rparr> \<in> set es)))
   \<and> (timestamp d = None \<longrightarrow>
        dream_matches T start d = dream_matches T start (d\<lparr>timestamp := Some 0\<rparr>))
   \<and> (eventTimestamp e = None \<longrightarrow>
        event_matches T start e = event_matches T start (e\<lparr>eventTimestamp := Some 0\<rparr>))
   \<and> startDate now yearAgo ''allTime'' = 0
   \<and> (fst (searchStore w inputValue scope now yearAgo) = SearchResults sds ses \<longrightarrow>
        (\<forall>h \<in> set sds. hitTimestamp h \<noteq> None) \<and> (\<forall>h \<in> set ses. evTimestamp h \<noteq> None))"
proof -
  assume auth: "\<not> not_signed_in w"
    and tdef: "toLowerCase (trim inputValue) = T"
    and nonempty: "T \<noteq> []"
    and texts: "\<forall>x \<in> set dreamSnapshot. dreamText (snd x) \<noteq> None"
    and clock: "30 * 24 * 60 * 60 * 1000 < now"
    and year: "0 < yearAgo"
  let ?start = "startDate now yearAgo scope"
  let ?ds = "sort_key (\<lambda>h. - ts_or_zero (hitTimestamp h)) (dreamResults T ?start dreamSnapshot)"
  let ?es = "sort_key (\<lambda>h. - ts_or_zero (evTimestamp h)) (eventResults T ?start eventSnapshot)"
  have run: "fst (performSearch w inputValue scope now yearAgo (Resolved dreamSnapshot) (Resolved eventSnapshot))
               = SearchResults ?ds ?es"
    by (rule performSearch_resolved[OF auth tdef nonempty texts])
  have bounded: "scope \<in> {''last7Days'', ''last30Days'', ''lastYear''} \<longrightarrow>
           (\<forall>h \<in> set ?ds. hitTimestamp h \<noteq> None) \<and> (\<forall>h \<in> set ?es. evTimestamp h \<noteq> None)"
  proof
    assume "scope \<in> {''last7Days'', ''last30Days'', ''lastYear''}"
    from bounded_scope_positive[OF clock year this] have pos: "0 < ?start" .
    then show "(\<forall>h \<in> set ?ds. hitTimestamp h \<noteq> None) \<and> (\<forall>h \<in> set ?es. evTimestamp h \<noteq> None)"
      by (auto simp: dreamResults_def eventResults_def dream_matches_def event_matches_def
          dream_hit_of_def event_hit_of_def ts_or_zero_def split: option.splits)
  qed
  have alltime: "scope = ''allTime'' \<longrightarrow>
           (\<forall>x \<in> set dreamSnapshot.
              timestamp (snd x) = None
              \<and> (includes_str (lower_or_empty (dreamText (snd x))) T
                  \<or> includes_str (lower_or_empty (dreamTitle (snd x))) T) \<longrightarrow>
              \<lparr>hitId = fst x, hitContent = dreamText (snd x), hitTitle = dreamTitle (snd x),
               hitTimestamp = None,
               hitMatched = (case matchedRealityEvent (snd x) of None \<Rightarrow> [] | Some m \<Rightarrow> m)\<rparr>
                \<in> set ?ds)
           \<and> (\<forall>x \<in> set eventSnapshot.
                eventTimestamp (snd x) = None
                \<and> includes_str (lower_or_empty (eventText (snd x))) T \<longrightarrow>
                \<lparr>evId = fst x, evContent = eventText (snd x), evTimestamp = None\<rparr> \<in> set ?es)"
  proof
    assume sc: "scope = ''allTime''"
    have z: "?start = 0" by (simp add: sc startDate_days)
    have d: "\<forall>x \<in> set dreamSnapshot.
              timestamp (snd x) = None
              \<and> (includes_str (lower_or_empty (dreamText (snd x))) T
                  \<or> includes_str (lower_or_empty (dreamTitle (snd x))) T) \<longrightarrow>
              \<lparr>hitId = fst x, hitContent = dreamText (snd x), hitTitle = dreamTitle (snd x),
               hitTimestamp = None,
               hitMatched = (case matchedRealityEvent (snd x) of None \<Rightarrow> [] | Some m \<Rightarrow> m)\<rparr>
                \<in> set ?ds"
    proof (intro ballI impI)
      fix x assume x: "x \<in> set dreamSnapshot"
        and m: "timestamp (snd x) = None
              \<and> (includes_str (lower_or_empty (dreamText (snd x))) T
                  \<or> includes_str (lower_or_empty (dreamTitle (snd x))) T)"
      from m have "dream_matches T ?start (snd x)"
        by (simp add: dream_matches_def z ts_or_zero_def)
      with x have "dream_hit_of x \<in> set ?ds" by (simp add: dreamResults_def)
      moreover from m have "dream_hit_of x
          = \<lparr>hitId = fst x, hitContent = dreamText (snd x), hitTitle = dreamTitle (snd x),
             hitTimestamp = None,
             hitMatched = (case matchedRealityEvent (snd x) of None \<Rightarrow> [] | Some m \<Rightarrow> m)\<rparr>"
        by (simp add: dream_hit_of_def)
      ultimately show "\<lparr>hitId = fst x, hitContent = dreamText (snd x), hitTitle = dreamTitle (snd x),
               hitTimestamp = None,
               hitMatched = (case matchedRealityEvent (snd x) of None \<Rightarrow> [] | Some m \<Rightarrow> m)\<rparr>
                \<in> set ?ds"
        by simp
    qed
    have e: "\<forall>x \<in> set eventSnapshot.
                eventTimestamp (snd x) = None
                \<and> includes_str (lower_or_empty (eventText (snd x))) T \<longrightarrow>
                \<lparr>evId = fst x, evContent = eventText (snd x), evTimestamp = None\<rparr> \<in> set ?es"
    proof (intro ballI impI)
      fix x assume x: "x \<in> set eventSnapshot"
        and m: "eventTimestamp (snd x) = None \<and> includes_str (lower_or_empty (eventText (snd x))) T"
      from m have "event_matches T ?start (snd x)"
        by (simp add: event_matches_def z ts_or_zero_def)
      with x have "event_hit_of x \<in> set ?es" by (simp add: eventResults_def)
      moreover from m have "event_hit_of x
          = \<lparr>evId = fst x, evContent = eventText (snd x), evTimestamp = None\<rparr>"
        by (simp add: event_hit_of_def)
      ultimately show "\<lparr>evId = fst x, evContent = eventText (snd x), evTimestamp = None\<rparr> \<in> set ?es"
        by simp
    qed
    from d e show "(\<forall>x \<in> set dreamSnapshot.
              timestamp (snd x) = None
              \<and> (includes_str (lower_or_empty (dreamText (snd x))) T
                  \<or> includes_str (lower_or_empty (dreamTitle (snd x))) T) \<longrightarrow>
              \<lparr>hitId = fst x, hitContent = dreamText (snd x), hitTitle = dreamTitle (snd x),
               hitTimestamp = None,
               hitMatched = (case matchedRealityEvent (snd x) of None \<Rightarrow> [] | Some m \<Rightarrow> m)\<rparr>
                \<in> set ?ds)
           \<and> (\<forall>x \<in> set eventSnapshot.
                eventTimestamp (snd x) = None
                \<and> includes_str (lower_or_empty (eventText (snd x))) T \<longrightarrow>
                \<lparr>evId = fst x, evContent = eventText (snd x), evTimestamp = None\<rparr> \<in> set ?es)"
      by (rule conjI)
  qed
  have zero: "timestamp d = None \<longrightarrow>
        dream_matches T start d = dream_matches T start (d\<lparr>timestamp := Some 0\<rparr>)"
      "eventTimestamp e = None \<longrightarrow>
        event_matches T start e = event_matches T start (e\<lparr>eventTimestamp := Some 0\<rparr>)"
    by (simp_all add: dream_matches_def event_matches_def ts_or_zero_def)
  have store: "fst (searchStore w inputValue scope now yearAgo) = SearchResults sds ses \<longrightarrow>
        (\<forall>h \<in> set sds. hitTimestamp h \<noteq> None) \<and> (\<forall>h \<in> set ses. evTimestamp h \<noteq> None)"
    using searchStore_hits_timed[of w inputValue scope now yearAgo sds ses] by blast
  have first: "\<exists>ds es.
      fst (performSearch w inputValue scope now yearAgo (Resolved dreamSnapshot) (Resolved eventSnapshot))
        = SearchResults ds es
      \<and> (scope \<in> {''last7Days'', ''last30Days'', ''lastYear''} \<longrightarrow>
           (\<forall>h \<in> set ds. hitTimestamp h \<noteq> None) \<and> (\<forall>h \<in> set es. evTimestamp h \<noteq> None))
      \<and> (scope = ''allTime'' \<longrightarrow>
           (\<forall>x \<in> set dreamSnapshot.
              timestamp (snd x) = None
              \<and> (includes_str (lower_or_empty (dreamText (snd x))) T
                  \<or> includes_str (lower_or_empty (dreamTitle (snd x))) T) \<longrightarrow>
              \<lparr>hitId = fst x, hitContent = dreamText (snd x), hitTitle = dreamTitle (snd x),
               hitTimestamp = None,
               hitMatched = (case matchedRealityEvent (snd x) of None \<Rightarrow> [] | Some m \<Rightarrow> m)\<rparr>
                \<in> set ds)
           \<and> (\<forall>x \<in> set eventSnapshot.
                eventTimestamp (snd x) = None
                \<and> includes_str (lower_or_empty (eventText (snd x))) T \<longrightarrow>
                \<lparr>evId = fst x, evContent = eventText (snd x), evTimestamp = None\<rparr> \<in> set es))"
    apply (rule exI[of _ ?ds])
    apply (rule exI[of _ ?es])
    apply (intro conjI)
      apply (rule run)
     apply (rule bounded)
    apply (rule alltime)
    done
  from first zero startDate_days(4)[of now yearAgo] store show ?thesis by blast
qed

text \<open>
  The claim as stated fails under \<open>allTime\<close>: a delivered dream without timestamp and
  without \<open>dreamText\<close> whose title contains the term is not returned, since rendering
  it throws and the search ends with an error; and a dream that the store holds
  without timestamp, with the term in its text, is not delivered by the query and not
  returned.
\<close>

theorem untimed_not_returned_counterexample:
  "timestamp untimed_title_dream = None
   \<and> includes_str (lower_or_empty (dreamTitle untimed_title_dream)) (toLowerCase (trim ''pet''))
   \<and> fst (performSearch signed_in_world ''pet'' ''allTime'' 1700000500000 1668900000000
            (Resolved [(''c2'', untimed_title_dream)]) (Resolved []))
       = ErrorPerformingSearch
   \<and> archived_dreams untimed_world ''u1'' = [(''a1'', untimed_dream)]
   \<and> timestamp untimed_dream = None
   \<and> includes_str (lower_or_empty (dreamText untimed_dream)) (toLowerCase (trim ''river''))
   \<and> fst (searchStore untimed_world ''river'' ''allTime'' 1700000500000 1668900000000)
       = SearchResults [] []"
  by code_simp

text \<open>
  The theorem on a dream and an event without timestamp that contain the term: both
  are returned under \<open>allTime\<close>, the dream behind a dated one, and neither under the
  three bounded scopes.
\<close>

theorem missing_timestamp_is_epoch_witness:
  "\<not> not_signed_in signed_in_world
   \<and> toLowerCase (trim '' River '') = ''river''
   \<and> map (\<lambda>x. dreamText (snd x)) [(''a1'', untimed_dream), (''a0'', river_dream)]
        = [Some ''A river at night'', Some ''A river at night'']
   \<and> 30 * 24 * 60 * 60 * 1000 < (1700000500000 :: int) \<and> (0 :: int) < 1668900000000
   \<and> fst (performSearch signed_in_world '' River '' ''allTime'' 1700000500000 1668900000000
            (Resolved [(''a1'', untimed_dream), (''a0'', river_dream)])
            (Resolved [(''e1'', untimed_event)]))
       = SearchResults
           [\<lparr>hitId = ''a0'', hitContent = Some ''A river at night'', hitTitle = Some ''River'',
             hitTimestamp = Some 1700000000000, hitMatched = ''met Bob at the river''\<rparr>,
            \<lparr>hitId = ''a1'', hitContent = Some ''A river at night'', hitTitle = Some ''River'',
             hitTimestamp = None, hitMatched = ''met Bob at the river''\<rparr>]
           [\<lparr>evId = ''e1'', evContent = Some ''Walked along the river'', evTimestamp = None\<rparr>]
   \<and> fst (performSearch signed_in_world '' River '' ''last30Days'' 1700000500000 1668900000000
            (Resolved [(''a1'', untimed_dream), (''a0'', river_dream)])
            (Resolved [(''e1'', untimed_event)]))
       = SearchResults
           [\<lparr>hitId = ''a0'', hitContent = Some ''A river at night'', hitTitle = Some ''River'',
             hitTimestamp = Some 1700000000000, hitMatched = ''met Bob at the river''\<rparr>]
           []
   \<and> fst (performSearch signed_in_world '' River '' ''last7Days'' 1700000500000 1668900000000
            (Resolved [(''a1'', untimed_dream)]) (Resolved [(''e1'', untimed_event)]))
       = SearchResults [] []
   \<and> fst (performSearch signed_in_world '' River '' ''lastYear'' 1700000500000 1668900000000
            (Resolved [(''a1'', untimed_dream)]) (Resolved [(''e1'', untimed_event)]))
       = SearchResults [] []"
proof -
  have h1: "\<not> not_signed_in signed_in_world" by code_simp
  have h2: "toLowerCase (trim '' River '') = ''river''" by code_simp
  have h3: "''river'' \<noteq> []" by simp
  have h4: "\<forall>x \<in> set [(''a1'', untimed_dream), (''a0'', river_dream)]. dreamText (snd x) \<noteq> None"
    by (simp add: river_dream_def untimed_dream_def)
  have h5: "30 * 24 * 60 * 60 * 1000 < (1700000500000 :: int)" by simp
  have h6: "(0 :: int) < 1668900000000" by simp
  have r: "fst (performSearch signed_in_world '' River '' ''allTime'' 1700000500000 1668900000000
            (Resolved [(''a1'', untimed_dream), (''a0'', river_dream)])
            (Resolved [(''e1'', untimed_event)]))
       = SearchResults
           [\<lparr>hitId = ''a0'', hitContent = Some ''A river at night'', hitTitle = Some ''River'',
             hitTimestamp = Some 1700000000000, hitMatched = ''met Bob at the river''\<rparr>,
            \<lparr>hitId = ''a1'', hitContent = Some ''A river at night'', hitTitle = Some ''River'',
             hitTimestamp = None, hitMatched = ''met Bob at the river''\<rparr>]
           [\<lparr>evId = ''e1'', evContent = Some ''Walked along the river'', evTimestamp = None\<rparr>]
   \<and> fst (performSearch signed_in_world '' River '' ''last30Days'' 1700000500000 1668900000000
            (Resolved [(''a1'', untimed_dream), (''a0'', river_dream)])
            (Resolved [(''e1'', untimed_event)]))
       = SearchResults
           [\<lparr>hitId = ''a0'', hitContent = Some ''A river at night'', hitTitle = Some ''River'',
             hitTimestamp = Some 1700000000000, hitMatched = ''met Bob at the river''\<rparr>]
           []
   \<and> fst (performSearch signed_in_world '' River '' ''last7Days'' 1700000500000 1668900000000
            (Resolved [(''a1'', untimed_dream)]) (Resolved [(''e1'', untimed_event)]))
       = SearchResults [] []
   \<and> fst (performSearch signed_in_world '' River '' ''lastYear'' 1700000500000 1668900000000
            (Resolved [(''a1'', untimed_dream)]) (Resolved [(''e1'', untimed_event)]))
       = SearchResults [] []"
    by code_simp
  have t: "map (\<lambda>x. dreamText (snd x)) [(''a1'', untimed_dream), (''a0'', river_dream)]
             = [Some ''A river at night'', Some ''A river at night'']"
    by (simp add: river_dream_def untimed_dream_def)
  from missing_timestamp_is_epoch[OF h1 h2 h3 h4 h5 h6] h1 h2 t h5 h6 r show ?thesis by blast
qed

section \<open>Properties of the presence counts\<close>

lemma forEach_total:
  "(\<And>st x. f st x = Inr (g st x)) \<Longrightarrow> forEach f xs st = Inr (foldl g st xs)"
  by (induction xs arbitrary: st) simp_all

lemma stats_callback_total: "stats_callback parse st doc = Inr (stats_step parse st doc)"
  by (auto simp: stats_callback_def stats_step_def split: prod.splits sum.splits option.splits)

lemma presenceCounts_foldl:
  "presenceCounts parse snapshot = Inr (foldl (stats_step parse) (categoryCounts0, []) snapshot)"
  unfolding presenceCounts_def by (rule forEach_total) (rule stats_callback_total)

lemma increment_map:
  "increment key (map (\<lambda>k. (k, n k)) ks) = map (\<lambda>k. (k, if k = key then n k + 1 else n k)) ks"
  by (simp add: increment_def)

lemma count_fields_typed:
  assumes "\<And>k. k \<in> set keys \<Longrightarrow> field_nonempty a k = Inr (P k)"
  shows "count_fields a keys (map (\<lambda>k. (k, n k)) ks)
         = (map (\<lambda>k. (k, n k + (if P k then count_list keys k else 0))) ks, None)"
  using assms
proof (induction keys arbitrary: n)
  case Nil
  show ?case by simp
next
  case (Cons key keys)
  have rest: "\<And>k. k \<in> set keys \<Longrightarrow> field_nonempty a k = Inr (P k)"
    using Cons.prems by simp
  have here: "field_nonempty a key = Inr (P key)" using Cons.prems by simp
  show ?case
  proof (cases "P key")
    case True
    show ?thesis
      using Cons.IH[OF rest, of "\<lambda>k. if k = key then n k + 1 else n k"] True here
      by (simp add: increment_map)
  next
    case False
    show ?thesis using Cons.IH[OF rest, of n] False here by simp
  qed
qed

lemma distinct_categoryKeys: "distinct categoryKeys"
  by (simp add: categoryKeys_def)

lemma count_list_distinct: "distinct xs \<Longrightarrow> count_list xs x = (if x \<in> set xs then 1 else 0)"
  by (induction xs) auto

lemma trim_Nil: "trim [] = []"
  by (simp add: trim_def)

lemma field_nonempty_object:
  "string_or_falsy (map_of kvs key) \<Longrightarrow>
   field_nonempty (JObj kvs) key
     = Inr (case map_of kvs key of Some (JStr s) \<Rightarrow> trim s \<noteq> [] | _ \<Rightarrow> False)"
  by (auto simp: field_nonempty_def get_prop_def string_or_falsy_def js_truthy_def trim_Nil
      split: option.splits json.splits)

lemma field_nonempty_scalar:
  "a \<noteq> JNull \<Longrightarrow> \<forall>kvs. a \<noteq> JObj kvs \<Longrightarrow> field_nonempty a key = Inr False"
  by (cases a) (auto simp: field_nonempty_def get_prop_def)

lemma count_fields_null: "keys \<noteq> [] \<Longrightarrow> count_fields JNull keys cc = (cc, Some TypeError)"
  by (cases keys) (auto simp: field_nonempty_def get_prop_def)

lemma stats_step_typed:
  assumes "case parse_analysis parse (analysisText d) of Inl e \<Rightarrow> True | Inr a \<Rightarrow> string_valued a"
  shows "fst (stats_step parse (map (\<lambda>k. (k, n k)) categoryKeys, warned) (i, d))
         = map (\<lambda>k. (k, n k + (if field_present parse k d then 1 else 0))) categoryKeys"
proof (cases "parse_analysis parse (analysisText d)")
  case (Inl e)
  then show ?thesis
    by (simp add: stats_step_def stats_callback_def field_present_def)
next
  case (Inr a)
  with assms have sv: "string_valued a" by simp
  have scalar: ?thesis if "a \<noteq> JNull" and "\<forall>kvs. a \<noteq> JObj kvs"
  proof -
    have each: "\<And>k. k \<in> set categoryKeys \<Longrightarrow> field_nonempty a k = Inr False"
      using that by (simp add: field_nonempty_scalar)
    have fp: "\<And>k. \<not> field_present parse k d"
      using Inr that by (cases a) (simp_all add: field_present_def)
    show ?thesis
      using count_fields_typed[OF each, of categoryKeys n categoryKeys] Inr
      by (simp add: stats_step_def stats_callback_def fp)
  qed
  show ?thesis
  proof (cases a)
    case JNull
    have "categoryKeys \<noteq> []" by (simp add: categoryKeys_def)
    from count_fields_null[OF this] show ?thesis
      using Inr JNull by (simp add: stats_step_def stats_callback_def field_present_def)
  next
    case (JObj kvs)
    have each: "\<And>k. k \<in> set categoryKeys \<Longrightarrow>
        field_nonempty a k = Inr (case map_of kvs k of Some (JStr s) \<Rightarrow> trim s \<noteq> [] | _ \<Rightarrow> False)"
      using sv JObj by (simp add: string_valued_def list_all_iff field_nonempty_object)
    have fp: "\<And>k. field_present parse k d
        = (case map_of kvs k of Some (JStr s) \<Rightarrow> trim s \<noteq> [] | _ \<Rightarrow> False)"
      using Inr JObj by (simp add: field_present_def)
    show ?thesis
      using count_fields_typed[OF each, of categoryKeys n categoryKeys] Inr
      by (simp add: stats_step_def stats_callback_def fp count_list_distinct[OF distinct_categoryKeys])
  next
    case (JBool b)
    then show ?thesis using scalar by simp
  next
    case (JNum b)
    then show ?thesis using scalar by simp
  next
    case (JStr b)
    then show ?thesis using scalar by simp
  next
    case (JArr b)
    then show ?thesis using scalar by simp
  qed
qed

lemma stats_step_warned_irrelevant:
  "fst (stats_step parse (cc, w1) x) = fst (stats_step parse (cc, w2) x)"
  by (cases x)
     (auto simp: stats_step_def stats_callback_def split: sum.splits prod.splits option.splits)

lemma foldl_stats_warned_irrelevant:
  "fst (foldl (stats_step parse) (cc, w1) xs) = fst (foldl (stats_step parse) (cc, w2) xs)"
proof (induction xs arbitrary: cc w1 w2)
  case Nil
  show ?case by simp
next
  case (Cons x xs)
  obtain c1 v1 where s1: "stats_step parse (cc, w1) x = (c1, v1)" by (cases "stats_step parse (cc, w1) x")
  obtain c2 v2 where s2: "stats_step parse (cc, w2) x = (c2, v2)" by (cases "stats_step parse (cc, w2) x")
  from stats_step_warned_irrelevant[of parse cc w1 x w2] s1 s2 have "c1 = c2" by simp
  with Cons.IH[of c1 v1 v2] s1 s2 show ?case by simp
qed

lemma foldl_stats_typed:
  "analyses_string_valued parse xs \<Longrightarrow>
   fst (foldl (stats_step parse) (map (\<lambda>k. (k, n k)) categoryKeys, warned) xs)
   = map (\<lambda>k. (k, n k + length (filter (\<lambda>x. field_present parse k (snd x)) xs))) categoryKeys"
proof (induction xs arbitrary: n warned)
  case Nil
  show ?case by simp
next
  case (Cons x xs)
  obtain i d where x: "x = (i, d)" by (cases x)
  from Cons.prems have hd: "case parse_analysis parse (analysisText d) of Inl e \<Rightarrow> True | Inr a \<Rightarrow> string_valued a"
    and tl: "analyses_string_valued parse xs"
    by (simp_all add: analyses_string_valued_def x)
  obtain cc' w' where st: "stats_step parse (map (\<lambda>k. (k, n k)) categoryKeys, warned) (i, d) = (cc', w')"
    by (cases "stats_step parse (map (\<lambda>k. (k, n k)) categoryKeys, warned) (i, d)")
  from stats_step_typed[OF hd, of n warned i] st
  have cc': "cc' = map (\<lambda>k. (k, n k + (if field_present parse k d then 1 else 0))) categoryKeys"
    by simp
  show ?case
    using Cons.IH[OF tl, of "\<lambda>k. n k + (if field_present parse k d then 1 else 0)" w']
    by (simp add: x st cc')
qed

lemma stats_step_unparsable:
  "parse_analysis parse (analysisText d) = Inl e \<Longrightarrow>
   stats_step parse (cc, warned) (i, d) = (cc, warned @ [i])"
  by (simp add: stats_step_def stats_callback_def)

lemma foldl_stats_warns:
  "i \<in> set warned \<Longrightarrow> i \<in> set (snd (foldl (stats_step parse) (cc, warned) xs))"
proof (induction xs arbitrary: cc warned)
  case Nil
  then show ?case by simp
next
  case (Cons x xs)
  obtain cc' w' where st: "stats_step parse (cc, warned) x = (cc', w')"
    by (cases "stats_step parse (cc, warned) x")
  have "i \<in> set w'"
    using Cons.prems st
    by (cases x)
       (auto simp: stats_step_def stats_callback_def split: sum.splits prod.splits option.splits)
  from Cons.IH[OF this, of cc'] st show ?case by simp
qed

lemma unparsable_is_warned:
  "parse_analysis parse (analysisText d) = Inl e \<Longrightarrow>
   i \<in> set (snd (foldl (stats_step parse) st (xs @ (i, d) # ys)))"
proof -
  assume un: "parse_analysis parse (analysisText d) = Inl e"
  obtain cc w where mid: "foldl (stats_step parse) st xs = (cc, w)"
    by (cases "foldl (stats_step parse) st xs")
  have "i \<in> set (w @ [i])" by simp
  from foldl_stats_warns[OF this, of parse cc ys] show ?thesis
    by (simp add: mid stats_step_unparsable[OF un])
qed

lemma unparsable_not_counted:
  "parse_analysis parse (analysisText d) = Inl e \<Longrightarrow>
   fst (foldl (stats_step parse) st (xs @ (i, d) # ys))
   = fst (foldl (stats_step parse) st (xs @ ys))"
proof -
  assume un: "parse_analysis parse (analysisText d) = Inl e"
  obtain cc w where mid: "foldl (stats_step parse) st xs = (cc, w)"
    by (cases "foldl (stats_step parse) st xs")
  show ?thesis
    using foldl_stats_warned_irrelevant[of parse cc "w @ [i]" ys w]
    by (simp add: mid stats_step_unparsable[OF un])
qed

text \<open>
  Claim C5, as amended. The aggregation never throws: it always yields counts, and
  \<open>loadDetailedDreamStats\<close> shows them once the read has resolved. When every analysis
  that parses is string-valued (each of the twelve fields missing, falsy or a string),
  the count of each field is exactly the number of dreams whose \<open>analysisText\<close> parses
  and whose value for the field is non-empty after trimming. A dream whose
  \<open>analysisText\<close> does not parse is warned about on the console and changes no count, in
  every collection.
\<close>

theorem presence_counts_exact:
  "(\<exists>cc warned.
      presenceCounts parse snapshot = Inr (cc, warned)
      \<and> (\<not> not_signed_in w \<longrightarrow>
            fst (loadDetailedDreamStats w parse (Resolved snapshot)) = Counts cc warned)
      \<and> (analyses_string_valued parse snapshot \<longrightarrow>
            cc = map (\<lambda>key. (key, length (filter (\<lambda>x. field_present parse key (snd x)) snapshot)))
                   categoryKeys))
   \<and> (parse_analysis parse (analysisText d) = Inl e \<longrightarrow>
        (\<exists>cc warned cc' warned'.
           presenceCounts parse (xs @ (i, d) # ys) = Inr (cc, warned)
           \<and> presenceCounts parse (xs @ ys) = Inr (cc', warned')
           \<and> cc = cc' \<and> i \<in> set warned))"
proof -
  let ?st = "foldl (stats_step parse) (categoryCounts0, []) snapshot"
  have c0: "categoryCounts0 = map (\<lambda>k. (k, 0)) categoryKeys" by (simp add: categoryCounts0_def)
  have a: "presenceCounts parse snapshot = Inr (fst ?st, snd ?st)"
    by (simp add: presenceCounts_foldl)
  have b: "\<not> not_signed_in w \<longrightarrow>
            fst (loadDetailedDreamStats w parse (Resolved snapshot)) = Counts (fst ?st) (snd ?st)"
    by (simp add: loadDetailedDreamStats_def presenceCounts_foldl Let_def split: prod.splits)
  have c: "analyses_string_valued parse snapshot \<longrightarrow>
            fst ?st = map (\<lambda>key. (key, length (filter (\<lambda>x. field_present parse key (snd x)) snapshot)))
                   categoryKeys"
    using foldl_stats_typed[of parse snapshot "\<lambda>k. 0" "[]"] by (simp add: c0)
  have first: "\<exists>cc warned.
      presenceCounts parse snapshot = Inr (cc, warned)
      \<and> (\<not> not_signed_in w \<longrightarrow>
            fst (loadDetailedDreamStats w parse (Resolved snapshot)) = Counts cc warned)
      \<and> (analyses_string_valued parse snapshot \<longrightarrow>
            cc = map (\<lambda>key. (key, length (filter (\<lambda>x. field_present parse key (snd x)) snapshot)))
                   categoryKeys)"
    using a b c by blast
  have second: "parse_analysis parse (analysisText d) = Inl e \<longrightarrow>
        (\<exists>cc warned cc' warned'.
           presenceCounts parse (xs @ (i, d) # ys) = Inr (cc, warned)
           \<and> presenceCounts parse (xs @ ys) = Inr (cc', warned')
           \<and> cc = cc' \<and> i \<in> set warned)"
  proof
    assume un: "parse_analysis parse (analysisText d) = Inl e"
    let ?s1 = "foldl (stats_step parse) (categoryCounts0, []) (xs @ (i, d) # ys)"
    let ?s2 = "foldl (stats_step parse) (categoryCounts0, []) (xs @ ys)"
    have "presenceCounts parse (xs @ (i, d) # ys) = Inr (fst ?s1, snd ?s1)"
      "presenceCounts parse (xs @ ys) = Inr (fst ?s2, snd ?s2)"
      by (simp_all add: presenceCounts_foldl)
    moreover have "fst ?s1 = fst ?s2" by (rule unparsable_not_counted[OF un])
    moreover have "i \<in> set (snd ?s1)" by (rule unparsable_is_warned[OF un])
    ultimately show "\<exists>cc warned cc' warned'.
           presenceCounts parse (xs @ (i, d) # ys) = Inr (cc, warned)
           \<and> presenceCounts parse (xs @ ys) = Inr (cc', warned')
           \<and> cc = cc' \<and> i \<in> set warned"
      by blast
  qed
  from first second show ?thesis by (rule conjI)
qed

text \<open>
  The claim as stated fails on an analysis that parses and has a field that is truthy
  and not a string, here the persons as a list: \<open>trim\<close> is not a function of an array,
  the \<open>catch\<close> of the callback ends the loop over the fields, and the later field
  \<open>messagesReceived\<close>, non-empty after trimming, is not counted, while the earlier field
  \<open>actionsPerformed\<close> is.
\<close>

theorem presence_counts_counterexample:
  "presenceCounts example_parse
     [(''s3'', analysed ''{\"actionsPerformed\":\"ran\",\"familiarPersonsSpokenTo\":[\"Ann\"],\"messagesReceived\":\"be calm\"}'')]
   = Inr ([(''actionsPerformed'', 1), (''location'', 0), (''timeInDream'', 0),
           (''movementsThroughTime'', 0), (''emotionalContent'', 0),
           (''surfacePsychologicalContent'', 0), (''workDoneInDream'', 0),
           (''familiarPersonsSpokenTo'', 0), (''relationToPastEvents'', 0),
           (''relationToFutureEvents'', 0), (''messagesReceived'', 0), (''awarenessOfSpace'', 0)],
          [''s3''])
   \<and> field_present example_parse ''messagesReceived''
        (analysed ''{\"actionsPerformed\":\"ran\",\"familiarPersonsSpokenTo\":[\"Ann\"],\"messagesReceived\":\"be calm\"}'')"
  by code_simp

theorem presence_counts_exact_witness:
  "\<not> not_signed_in signed_in_world
   \<and> analyses_string_valued example_parse
        ([(''s4'', analysed ''{\"actionsPerformed\":\"ran\",\"location\":\"\",\"timeInDream\":\" \"}'')]
         @ (''s5'', analysed ''{\"actionsPerformed\":\"ra'') # [])
   \<and> parse_analysis example_parse (analysisText (analysed ''{\"actionsPerformed\":\"ra'')) = Inl SyntaxError
   \<and> presenceCounts example_parse
        ([(''s4'', analysed ''{\"actionsPerformed\":\"ran\",\"location\":\"\",\"timeInDream\":\" \"}'')]
         @ (''s5'', analysed ''{\"actionsPerformed\":\"ra'') # [])
      = Inr ((''actionsPerformed'', 1) # map (\<lambda>key. (key, 0)) (tl categoryKeys), [''s5''])"
proof -
  have h1: "\<not> not_signed_in signed_in_world" by code_simp
  have h2: "analyses_string_valued example_parse
        ([(''s4'', analysed ''{\"actionsPerformed\":\"ran\",\"location\":\"\",\"timeInDream\":\" \"}'')]
         @ (''s5'', analysed ''{\"actionsPerformed\":\"ra'') # [])"
    by code_simp
  have h3: "parse_analysis example_parse (analysisText (analysed ''{\"actionsPerformed\":\"ra'')) = Inl SyntaxError"
    by code_simp
  have r: "presenceCounts example_parse
        ([(''s4'', analysed ''{\"actionsPerformed\":\"ran\",\"location\":\"\",\"timeInDream\":\" \"}'')]
         @ (''s5'', analysed ''{\"actionsPerformed\":\"ra'') # [])
      = Inr ((''actionsPerformed'', 1) # map (\<lambda>key. (key, 0)) (tl categoryKeys), [''s5''])"
    by code_simp
  from presence_counts_exact
         [of example_parse
             "[(''s4'', analysed ''{\"actionsPerformed\":\"ran\",\"location\":\"\",\"timeInDream\":\" \"}'')]
              @ (''s5'', analysed ''{\"actionsPerformed\":\"ra'') # []"
             signed_in_world "analysed ''{\"actionsPerformed\":\"ra''" SyntaxError
             "[(''s4'', analysed ''{\"actionsPerformed\":\"ran\",\"location\":\"\",\"timeInDream\":\" \"}'')]"
             "''s5''" "[]"]
    h1 h2 h3 r
  show ?thesis by blast
qed

section \<open>Properties of the top terms\<close>









lemma distinct_first_occurrences: "distinct (first_occurrences ts)"
  by (simp add: first_occurrences_def)


























end
